theory Spec2Isabelle
  imports Main
begin

section \<open>JavaScript values, as far as the server touches them\<close>

text \<open>
  The server moves JSON-shaped values between the tool-invocation protocol and the
  remote HTTP API. A value is \<open>undefined\<close>, \<open>null\<close>, a boolean, a number, a string,
  an array or a plain object. Numbers are restricted to integers (the model has no
  floating point); strings are byte lists; an object is an association list in
  insertion order, read at the first entry of a key (the keys of a JavaScript object
  are distinct; keys that look like array indices are not reordered).
\<close>

datatype jsval =
    JUndefined
  | JNull
  | JBool bool
  | JNum int
  | JStr string
  | JArr "jsval list"
  | JObj "(string \<times> jsval) list"

text \<open>Truthiness, as \<open>||\<close> and \<open>!\<close> test it.\<close>

fun truthy :: "jsval \<Rightarrow> bool" where
  "truthy JUndefined = False"
| "truthy JNull = False"
| "truthy (JBool b) = b"
| "truthy (JNum n) = (n \<noteq> 0)"
| "truthy (JStr s) = (s \<noteq> [])"
| "truthy (JArr _) = True"
| "truthy (JObj _) = True"

text \<open>\<open>a || b\<close> on values whose evaluation cannot throw.\<close>

definition js_or :: "jsval \<Rightarrow> jsval \<Rightarrow> jsval" where
  "js_or a b = (if truthy a then a else b)"

subsection \<open>Decimal rendering of numbers\<close>

definition digit_char :: "nat \<Rightarrow> char" where
  "digit_char d = ''0123456789abcdef'' ! d"

fun show_nat :: "nat \<Rightarrow> string" where
  "show_nat n = (if n < 10 then [digit_char n] else show_nat (n div 10) @ [digit_char (n mod 10)])"

declare show_nat.simps [simp del]

definition show_int :: "int \<Rightarrow> string" where
  "show_int i = (if i < 0 then CHR ''-'' # show_nat (nat (- i)) else show_nat (nat i))"

subsection \<open>String conversion\<close>

fun intercalate :: "string \<Rightarrow> string list \<Rightarrow> string" where
  "intercalate sep [] = []"
| "intercalate sep [x] = x"
| "intercalate sep (x # y # ys) = x @ sep @ intercalate sep (y # ys)"

text \<open>
  \<open>ToString\<close>, which a template literal \<open>`${v}`\<close> applies: an array joins its elements
  with commas (\<open>undefined\<close> and \<open>null\<close> elements render empty), a plain object renders as
  \<open>[object Object]\<close>.
\<close>

fun toString :: "jsval \<Rightarrow> string" where
  "toString JUndefined = ''undefined''"
| "toString JNull = ''null''"
| "toString (JBool b) = (if b then ''true'' else ''false'')"
| "toString (JNum n) = show_int n"
| "toString (JStr s) = s"
| "toString (JArr xs) =
     intercalate '','' (map (\<lambda>x. if x = JUndefined \<or> x = JNull then [] else toString x) xs)"
| "toString (JObj _) = ''[object Object]''"

subsection \<open>JSON.stringify\<close>

definition escape_char :: "char \<Rightarrow> string" where
  "escape_char c =
     (let n = (of_char c :: nat) in
      if n = 34 then [CHR 0x5C, CHR 0x22]
      else if n = 92 then [CHR 0x5C, CHR 0x5C]
      else if n = 8 then [CHR 0x5C, CHR ''b'']
      else if n = 12 then [CHR 0x5C, CHR ''f'']
      else if n = 10 then [CHR 0x5C, CHR ''n'']
      else if n = 13 then [CHR 0x5C, CHR ''r'']
      else if n = 9 then [CHR 0x5C, CHR ''t'']
      else if n < 32 then [CHR 0x5C, CHR ''u'', CHR ''0'', CHR ''0'', digit_char (n div 16), digit_char (n mod 16)]
      else [c])"

definition quote :: "string \<Rightarrow> string" where
  "quote s = CHR 0x22 # concat (map escape_char s) @ [CHR 0x22]"

text \<open>
  \<open>JSON.stringify(v)\<close>: the result is \<open>undefined\<close> (here \<open>None\<close>) for \<open>undefined\<close>;
  a property whose value is \<open>undefined\<close> is left out of an object; an \<open>undefined\<close>
  array element is written \<open>null\<close>.
\<close>

fun JSON_stringify :: "jsval \<Rightarrow> string option" where
  "JSON_stringify JUndefined = None"
| "JSON_stringify JNull = Some ''null''"
| "JSON_stringify (JBool b) = Some (if b then ''true'' else ''false'')"
| "JSON_stringify (JNum n) = Some (show_int n)"
| "JSON_stringify (JStr s) = Some (quote s)"
| "JSON_stringify (JArr xs) =
     Some (''['' @ intercalate '',''
        (map (\<lambda>x. case JSON_stringify x of None \<Rightarrow> ''null'' | Some t \<Rightarrow> t) xs) @ '']'')"
| "JSON_stringify (JObj kvs) =
     Some (''{'' @ intercalate '',''
        (concat (map (\<lambda>(k, v). case JSON_stringify v of None \<Rightarrow> [] | Some t \<Rightarrow> [quote k @ '':'' @ t]) kvs))
        @ ''}'')"

text \<open>\<open>JSON.stringify(v, null, 2)\<close>: the same, indented by two spaces per level.\<close>

fun stringify_indent :: "string \<Rightarrow> jsval \<Rightarrow> string option" where
  "stringify_indent ind JUndefined = None"
| "stringify_indent ind JNull = Some ''null''"
| "stringify_indent ind (JBool b) = Some (if b then ''true'' else ''false'')"
| "stringify_indent ind (JNum n) = Some (show_int n)"
| "stringify_indent ind (JStr s) = Some (quote s)"
| "stringify_indent ind (JArr xs) =
     (if xs = [] then Some ''[]''
      else Some (''['' @ [CHR 0x0A] @ ind @ ''  '' @
        intercalate ('','' @ [CHR 0x0A] @ ind @ ''  '')
          (map (\<lambda>x. case stringify_indent (ind @ ''  '') x of None \<Rightarrow> ''null'' | Some t \<Rightarrow> t) xs)
        @ [CHR 0x0A] @ ind @ '']''))"
| "stringify_indent ind (JObj kvs) =
     (let props = concat (map (\<lambda>(k, v). case stringify_indent (ind @ ''  '') v of
                                 None \<Rightarrow> [] | Some t \<Rightarrow> [quote k @ '': '' @ t]) kvs)
      in if props = [] then Some ''{}''
         else Some (''{'' @ [CHR 0x0A] @ ind @ ''  '' @
           intercalate ('','' @ [CHR 0x0A] @ ind @ ''  '') props
           @ [CHR 0x0A] @ ind @ ''}''))"

definition JSON_stringify_2 :: "jsval \<Rightarrow> string option" where
  "JSON_stringify_2 v = stringify_indent [] v"

subsection \<open>Property access, spread and property definition\<close>

definition nullish :: "jsval \<Rightarrow> bool" where
  "nullish v = (v = JUndefined \<or> v = JNull)"

text \<open>
  \<open>v.k\<close> on a value that is neither \<open>undefined\<close> nor \<open>null\<close>. The server reads only the
  keys \<open>collector\<close>, \<open>name\<close>, \<open>description\<close>, \<open>category\<close>, \<open>fields\<close>, \<open>response\<close>,
  \<open>status\<close>, \<open>data\<close> and \<open>message\<close>, none of which a string, a number, a boolean or an
  array has.
\<close>

definition prop_of :: "jsval \<Rightarrow> string \<Rightarrow> jsval" where
  "prop_of v k =
     (case v of
        JObj kvs \<Rightarrow> (case map_of kvs k of None \<Rightarrow> JUndefined | Some x \<Rightarrow> x)
      | _ \<Rightarrow> JUndefined)"

text \<open>
  What is thrown and caught. \<open>Axios e\<close> is an AxiosError, with its message and its
  response if it has one. \<open>JsError m\<close> is an Error object that is not an AxiosError and
  has no \<open>response\<close> property: a TypeError raised by the runtime, or \<open>new Error(m)\<close>.
  \<open>ErrorWithResponse m r\<close> is an Error object that is not an AxiosError, with message
  \<open>m\<close>, whose \<open>response\<close> property has the value \<open>r\<close>. \<open>NonError v\<close> is a thrown value
  that is not an Error object.
\<close>

record response =
  status :: int
  data :: jsval
  headers :: "(string \<times> string) list"

datatype axios_error = AxiosError string "response option"

datatype thrown =
    Axios axios_error
  | JsError string
  | ErrorWithResponse string jsval
  | NonError jsval

definition cannot_read :: "jsval \<Rightarrow> string \<Rightarrow> string" where
  "cannot_read v k =
     ''Cannot read properties of '' @ toString v @ '' (reading '' @ [CHR 0x27] @ k @ [CHR 0x27] @ '')''"

text \<open>\<open>v.k\<close> in general: a TypeError on \<open>undefined\<close> and \<open>null\<close>.\<close>

definition getprop :: "jsval \<Rightarrow> string \<Rightarrow> thrown + jsval" where
  "getprop v k = (if nullish v then Inl (JsError (cannot_read v k)) else Inr (prop_of v k))"

text \<open>\<open>{...v}\<close>: the own enumerable properties of \<open>v\<close>, in order.\<close>

fun spread :: "jsval \<Rightarrow> (string \<times> jsval) list" where
  "spread (JObj kvs) = kvs"
| "spread (JArr xs) = zip (map show_nat [0..<length xs]) xs"
| "spread (JStr s) = zip (map show_nat [0..<length s]) (map (\<lambda>c. JStr [c]) s)"
| "spread _ = []"

text \<open>
  A later \<open>k: v\<close> in an object literal: an existing key keeps its place and takes the
  new value, a new key goes to the end.
\<close>

fun set_prop :: "string \<Rightarrow> jsval \<Rightarrow> (string \<times> jsval) list \<Rightarrow> (string \<times> jsval) list" where
  "set_prop k v [] = [(k, v)]"
| "set_prop k v (p # ps) = (if fst p = k then (k, v) # ps else p # set_prop k v ps)"

section \<open>The transport client\<close>

datatype http_method = GET | POST | PUT | DELETE

text \<open>
  One call on \<open>sumoLogicClient\<close>: the method, the path, the body argument (if the call
  passes one), and the \<open>params\<close> and \<open>headers\<close> of the per-call config.
\<close>

record request =
  req_method :: http_method
  req_url :: string
  req_data :: "jsval option"
  req_params :: "(string \<times> string) list"
  req_headers :: "(string \<times> jsval) list"

text \<open>
  The remote service is a state machine outside the program: a call either resolves
  with a response or rejects with an AxiosError, and moves the remote state. A handler
  returns its result, the calls it made (in order, each with its outcome), and the
  remote state it leaves.
\<close>

type_synonym 's client = "'s \<Rightarrow> request \<Rightarrow> (axios_error + response) \<times> 's"

type_synonym call = "request \<times> (axios_error + response)"

definition client_get :: "string \<Rightarrow> request" where
  "client_get url = \<lparr>req_method = GET, req_url = url, req_data = None, req_params = [], req_headers = []\<rparr>"

definition client_get_params :: "string \<Rightarrow> (string \<times> string) list \<Rightarrow> request" where
  "client_get_params url ps =
     \<lparr>req_method = GET, req_url = url, req_data = None, req_params = ps, req_headers = []\<rparr>"

definition client_post :: "string \<Rightarrow> jsval \<Rightarrow> request" where
  "client_post url d =
     \<lparr>req_method = POST, req_url = url, req_data = Some d, req_params = [], req_headers = []\<rparr>"

definition client_put :: "string \<Rightarrow> jsval \<Rightarrow> (string \<times> jsval) list \<Rightarrow> request" where
  "client_put url d hs =
     \<lparr>req_method = PUT, req_url = url, req_data = Some d, req_params = [], req_headers = hs\<rparr>"

definition client_delete :: "string \<Rightarrow> request" where
  "client_delete url =
     \<lparr>req_method = DELETE, req_url = url, req_data = None, req_params = [], req_headers = []\<rparr>"

section \<open>handleApiError\<close>

text \<open>A template literal renders an \<open>undefined\<close> result of \<open>JSON.stringify\<close> as \<open>undefined\<close>.\<close>

definition template_opt :: "string option \<Rightarrow> string" where
  "template_opt t = (case t of None \<Rightarrow> ''undefined'' | Some x \<Rightarrow> x)"

definition api_error_text :: "string \<Rightarrow> string option \<Rightarrow> string" where
  "api_error_text st body = ''API Error: '' @ st @ '' - '' @ template_opt body"

text \<open>
  \<open>index.ts\<close>: the argument has type \<open>any\<close>; the function tests \<open>error.response\<close> on
  whatever it is given and otherwise reads \<open>error.message\<close>. The response of an
  AxiosError is an object, hence truthy.
\<close>

definition handleApiError_index :: "thrown \<Rightarrow> thrown + string" where
  "handleApiError_index error =
     (case error of
        Axios (AxiosError m (Some r)) \<Rightarrow>
          Inr (api_error_text (show_int (status r)) (JSON_stringify (data r)))
      | Axios (AxiosError m None) \<Rightarrow> Inr (''Error: '' @ m)
      | JsError m \<Rightarrow> Inr (''Error: '' @ m)
      | ErrorWithResponse m r \<Rightarrow>
          if truthy r
          then Inr (api_error_text (toString (prop_of r ''status''))
                     (JSON_stringify (prop_of r ''data'')))
          else Inr (''Error: '' @ m)
      | NonError v \<Rightarrow>
          (case getprop v ''response'' of
             Inl t \<Rightarrow> Inl t
           | Inr r \<Rightarrow>
               if truthy r
               then Inr (api_error_text (toString (prop_of r ''status''))
                          (JSON_stringify (prop_of r ''data'')))
               else Inr (''Error: '' @ toString (prop_of v ''message''))))"

text \<open>
  \<open>README.md\<close>: the argument has type \<open>unknown\<close>; the function tests
  \<open>error instanceof AxiosError && error.response\<close>, then \<open>error instanceof Error\<close>.
\<close>

definition handleApiError_readme :: "thrown \<Rightarrow> string" where
  "handleApiError_readme error =
     (case error of
        Axios (AxiosError m (Some r)) \<Rightarrow>
          api_error_text (show_int (status r)) (JSON_stringify (data r))
      | Axios (AxiosError m None) \<Rightarrow> ''Error: '' @ m
      | JsError m \<Rightarrow> ''Error: '' @ m
      | ErrorWithResponse m r \<Rightarrow> ''Error: '' @ m
      | NonError v \<Rightarrow> ''Unknown error occurred'')"

section \<open>What the handlers share\<close>

text \<open>
  A handler receives the arguments object of the invocation and destructures it:
  a parameter that was not supplied is \<open>undefined\<close>.
\<close>

type_synonym args = "(string \<times> jsval) list"

definition arg :: "args \<Rightarrow> string \<Rightarrow> jsval" where
  "arg a k = (case map_of a k of None \<Rightarrow> JUndefined | Some v \<Rightarrow> v)"

text \<open>
  \<open>try { const response = await sumoLogicClient...(req); return on_ok(response) }
  catch (error) { on_err(error) }\<close> with a single call.
\<close>

definition attempt ::
  "'s client \<Rightarrow> 's \<Rightarrow> request \<Rightarrow> (response \<Rightarrow> 'r) \<Rightarrow> (thrown \<Rightarrow> 'r) \<Rightarrow> 'r \<times> call list \<times> 's" where
  "attempt net s req on_ok on_err =
     (case net s req of
        (Inl e, s') \<Rightarrow> (on_err (Axios e), [(req, Inl e)], s')
      | (Inr response, s') \<Rightarrow> (on_ok response, [(req, Inr response)], s'))"

text \<open>The same when building the request can itself throw inside the \<open>try\<close>.\<close>

definition attempt_built ::
  "'s client \<Rightarrow> 's \<Rightarrow> thrown + request \<Rightarrow> (response \<Rightarrow> 'r) \<Rightarrow> (thrown \<Rightarrow> 'r) \<Rightarrow> 'r \<times> call list \<times> 's" where
  "attempt_built net s built on_ok on_err =
     (case built of
        Inl t \<Rightarrow> (on_err t, [], s)
      | Inr req \<Rightarrow> attempt net s req on_ok on_err)"

subsection \<open>Request bodies and parameters\<close>

text \<open>\<open>create_hosted_collector\<close>: the \<open>collectorData\<close> literal.\<close>

definition create_collectorData :: "jsval \<Rightarrow> jsval \<Rightarrow> jsval \<Rightarrow> jsval \<Rightarrow> jsval" where
  "create_collectorData name description category fields' =
     JObj [(''collector'', JObj [(''collectorType'', JStr ''Hosted''), (''name'', name),
        (''description'', description), (''category'', category), (''fields'', fields')])]"

text \<open>\<open>create_http_source\<close>: the \<open>sourceData\<close> literal.\<close>

definition sourceData :: "jsval \<Rightarrow> jsval \<Rightarrow> jsval \<Rightarrow> jsval \<Rightarrow> jsval" where
  "sourceData name description category fields' =
     JObj [(''source'', JObj [(''sourceType'', JStr ''HTTP''), (''name'', name),
        (''description'', description), (''category'', category), (''fields'', fields'),
        (''messagePerRequest'', JBool False)])]"

text \<open>\<open>start_search_job\<close>: the \<open>searchJobData\<close> literal.\<close>

definition searchJobData :: "jsval \<Rightarrow> jsval \<Rightarrow> jsval \<Rightarrow> jsval \<Rightarrow> jsval" where
  "searchJobData query from_time to_time time_zone =
     JObj [(''query'', query), (''from'', from_time), (''to'', to_time),
        (''timeZone'', js_or time_zone (JStr ''UTC''))]"

text \<open>\<open>v.toString()\<close>.\<close>

definition toString_method :: "jsval \<Rightarrow> thrown + string" where
  "toString_method v =
     (if nullish v then Inl (JsError (cannot_read v ''toString'')) else Inr (toString v))"

text \<open>
  \<open>get_search_job_results\<close>: the \<open>params\<close> object, filled from \<open>limit\<close> and then
  \<open>offset\<close>, each only when it is not \<open>undefined\<close>.
\<close>

definition optional_param :: "string \<Rightarrow> jsval \<Rightarrow> thrown + (string \<times> string) list" where
  "optional_param k v =
     (if v \<noteq> JUndefined
      then (case toString_method v of Inl t \<Rightarrow> Inl t | Inr x \<Rightarrow> Inr [(k, x)])
      else Inr [])"

definition search_params :: "jsval \<Rightarrow> jsval \<Rightarrow> thrown + (string \<times> string) list" where
  "search_params limit offset =
     (case optional_param ''limit'' limit of
        Inl t \<Rightarrow> Inl t
      | Inr p1 \<Rightarrow>
          (case optional_param ''offset'' offset of
             Inl t \<Rightarrow> Inl t
           | Inr p2 \<Rightarrow> Inr (p1 @ p2)))"

definition search_results_request :: "jsval \<Rightarrow> jsval \<Rightarrow> jsval \<Rightarrow> thrown + request" where
  "search_results_request job_id limit offset =
     (case search_params limit offset of
        Inl t \<Rightarrow> Inl t
      | Inr params \<Rightarrow>
          Inr (client_get_params (''/v1/search/jobs/'' @ toString job_id @ ''/messages'') params))"

subsection \<open>update_collector: merge and conditional write\<close>

text \<open>\<open>supplied || currentCollector.k\<close>: the right operand is read only when the left is falsy.\<close>

definition or_current :: "jsval \<Rightarrow> jsval \<Rightarrow> string \<Rightarrow> thrown + jsval" where
  "or_current supplied currentCollector k =
     (if truthy supplied then Inr supplied else getprop currentCollector k)"

text \<open>\<open>description !== undefined ? description : currentCollector.description\<close>.\<close>

definition defined_or_current :: "jsval \<Rightarrow> jsval \<Rightarrow> string \<Rightarrow> thrown + jsval" where
  "defined_or_current supplied currentCollector k =
     (if supplied \<noteq> JUndefined then Inr supplied else getprop currentCollector k)"

text \<open>
  The \<open>collectorData\<close> literal of \<open>update_collector\<close>: the fetched collector spread,
  then \<open>name\<close>, \<open>description\<close>, \<open>category\<close> and \<open>fields\<close>, evaluated in that order.
\<close>

definition update_collectorData ::
  "jsval \<Rightarrow> jsval \<Rightarrow> jsval \<Rightarrow> jsval \<Rightarrow> jsval \<Rightarrow> thrown + jsval" where
  "update_collectorData currentCollector name description category fields' =
     (case or_current name currentCollector ''name'' of
        Inl t \<Rightarrow> Inl t
      | Inr n \<Rightarrow>
     (case defined_or_current description currentCollector ''description'' of
        Inl t \<Rightarrow> Inl t
      | Inr d \<Rightarrow>
     (case or_current category currentCollector ''category'' of
        Inl t \<Rightarrow> Inl t
      | Inr c \<Rightarrow>
     (case or_current fields' currentCollector ''fields'' of
        Inl t \<Rightarrow> Inl t
      | Inr f \<Rightarrow>
          Inr (JObj [(''collector'',
            JObj (set_prop ''fields'' f (set_prop ''category'' c
              (set_prop ''description'' d (set_prop ''name'' n (spread currentCollector))))))])))))"

text \<open>\<open>getResponse.headers.etag\<close>.\<close>

definition etag_of :: "response \<Rightarrow> jsval" where
  "etag_of getResponse =
     (case map_of (headers getResponse) ''etag'' of None \<Rightarrow> JUndefined | Some v \<Rightarrow> JStr v)"

text \<open>
  The body of the \<open>try\<close> in \<open>update_collector\<close>, which both files have word for word:
  GET the collector, read \<open>data.collector\<close> and the \<open>etag\<close> header, build
  \<open>collectorData\<close>, PUT it with \<open>If-Match\<close>. Whatever is thrown on the way goes to
  \<open>on_err\<close>; nothing is called after a failure.
\<close>

definition update_collector_flow ::
  "'s client \<Rightarrow> 's \<Rightarrow> args \<Rightarrow> (response \<Rightarrow> 'r) \<Rightarrow> (thrown \<Rightarrow> 'r) \<Rightarrow> 'r \<times> call list \<times> 's" where
  "update_collector_flow net s a on_ok on_err =
     (let url = ''/v1/collectors/'' @ toString (arg a ''collector_id'');
          get_req = client_get url
      in case net s get_req of
           (Inl e, s1) \<Rightarrow> (on_err (Axios e), [(get_req, Inl e)], s1)
         | (Inr getResponse, s1) \<Rightarrow>
             (case getprop (data getResponse) ''collector'' of
                Inl t \<Rightarrow> (on_err t, [(get_req, Inr getResponse)], s1)
              | Inr currentCollector \<Rightarrow>
                  (case update_collectorData currentCollector (arg a ''name'')
                          (arg a ''description'') (arg a ''category'') (arg a ''fields'') of
                     Inl t \<Rightarrow> (on_err t, [(get_req, Inr getResponse)], s1)
                   | Inr collectorData \<Rightarrow>
                       (let put_req = client_put url collectorData
                                        [(''If-Match'', etag_of getResponse)]
                        in case net s1 put_req of
                             (Inl e, s2) \<Rightarrow>
                               (on_err (Axios e),
                                [(get_req, Inr getResponse), (put_req, Inl e)], s2)
                           | (Inr response, s2) \<Rightarrow>
                               (on_ok response,
                                [(get_req, Inr getResponse), (put_req, Inr response)], s2)))))"

subsection \<open>Synthesized payloads\<close>

definition connection_ok :: jsval where
  "connection_ok =
     JObj [(''status'', JStr ''success''), (''message'', JStr ''Connection to SumoLogic API successful'')]"

definition connection_failed :: "string \<Rightarrow> jsval" where
  "connection_failed m = JObj [(''status'', JStr ''error''), (''message'', JStr m)]"

definition deleted_payload :: "jsval \<Rightarrow> jsval" where
  "deleted_payload collector_id =
     JObj [(''status'', JStr ''success''),
           (''message'', JStr (''Collector '' @ toString collector_id @ '' deleted successfully''))]"

section \<open>The handlers of README.md (registered with server.tool)\<close>

text \<open>
  A handler returns \<open>{content: [{type: 'text', text}], isError?}\<close>. The whole body
  of each handler is one \<open>try\<close>/\<open>catch\<close>, and the \<open>catch\<close> returns.
\<close>

datatype content_block = TextBlock "string option"

record tool_result =
  content :: "content_block list"
  isError :: "bool option"

definition text_result :: "string option \<Rightarrow> tool_result" where
  "text_result t = \<lparr>content = [TextBlock t], isError = None\<rparr>"

definition json_result :: "response \<Rightarrow> tool_result" where
  "json_result response = text_result (JSON_stringify_2 (data response))"

definition error_result :: "thrown \<Rightarrow> tool_result" where
  "error_result error =
     \<lparr>content = [TextBlock (Some (handleApiError_readme error))], isError = Some True\<rparr>"

definition check_connection_tool ::
  "'s client \<Rightarrow> 's \<Rightarrow> args \<Rightarrow> tool_result \<times> call list \<times> 's" where
  "check_connection_tool net s a =
     attempt net s (client_get ''/v1/collectors'')
       (\<lambda>_. text_result (JSON_stringify connection_ok))
       (\<lambda>error. text_result (JSON_stringify (connection_failed (handleApiError_readme error))))"

definition list_collectors_tool ::
  "'s client \<Rightarrow> 's \<Rightarrow> args \<Rightarrow> tool_result \<times> call list \<times> 's" where
  "list_collectors_tool net s a =
     attempt net s
       (client_get ''/v1/collectors'')
       json_result error_result"

definition get_collector_tool ::
  "'s client \<Rightarrow> 's \<Rightarrow> args \<Rightarrow> tool_result \<times> call list \<times> 's" where
  "get_collector_tool net s a =
     attempt net s
       (client_get (''/v1/collectors/'' @ toString (arg a ''collector_id'')))
       json_result error_result"

definition create_hosted_collector_tool ::
  "'s client \<Rightarrow> 's \<Rightarrow> args \<Rightarrow> tool_result \<times> call list \<times> 's" where
  "create_hosted_collector_tool net s a =
     attempt net s
       (client_post ''/v1/collectors''
        (create_collectorData (arg a ''name'') (arg a ''description'') (arg a ''category'') (arg a ''fields'')))
       json_result error_result"

definition update_collector_tool ::
  "'s client \<Rightarrow> 's \<Rightarrow> args \<Rightarrow> tool_result \<times> call list \<times> 's" where
  "update_collector_tool net s a =
     update_collector_flow net s a json_result error_result"

definition delete_collector_tool ::
  "'s client \<Rightarrow> 's \<Rightarrow> args \<Rightarrow> tool_result \<times> call list \<times> 's" where
  "delete_collector_tool net s a =
     attempt net s
       (client_delete (''/v1/collectors/'' @ toString (arg a ''collector_id'')))
       (\<lambda>_. text_result (JSON_stringify (deleted_payload (arg a ''collector_id'')))) error_result"

definition list_sources_tool ::
  "'s client \<Rightarrow> 's \<Rightarrow> args \<Rightarrow> tool_result \<times> call list \<times> 's" where
  "list_sources_tool net s a =
     attempt net s
       (client_get (''/v1/collectors/'' @ toString (arg a ''collector_id'') @ ''/sources''))
       json_result error_result"

definition get_source_tool ::
  "'s client \<Rightarrow> 's \<Rightarrow> args \<Rightarrow> tool_result \<times> call list \<times> 's" where
  "get_source_tool net s a =
     attempt net s
       (client_get (''/v1/collectors/'' @ toString (arg a ''collector_id'') @ ''/sources/''
        @ toString (arg a ''source_id'')))
       json_result error_result"

definition create_http_source_tool ::
  "'s client \<Rightarrow> 's \<Rightarrow> args \<Rightarrow> tool_result \<times> call list \<times> 's" where
  "create_http_source_tool net s a =
     attempt net s
       (client_post (''/v1/collectors/'' @ toString (arg a ''collector_id'') @ ''/sources'')
        (sourceData (arg a ''name'') (arg a ''description'') (arg a ''category'') (arg a ''fields'')))
       json_result error_result"

definition start_search_job_tool ::
  "'s client \<Rightarrow> 's \<Rightarrow> args \<Rightarrow> tool_result \<times> call list \<times> 's" where
  "start_search_job_tool net s a =
     attempt net s
       (client_post ''/v1/search/jobs''
        (searchJobData (arg a ''query'') (arg a ''from_time'') (arg a ''to_time'') (arg a ''time_zone'')))
       json_result error_result"

definition check_search_job_status_tool ::
  "'s client \<Rightarrow> 's \<Rightarrow> args \<Rightarrow> tool_result \<times> call list \<times> 's" where
  "check_search_job_status_tool net s a =
     attempt net s
       (client_get (''/v1/search/jobs/'' @ toString (arg a ''job_id'')))
       json_result error_result"

definition get_search_job_results_tool ::
  "'s client \<Rightarrow> 's \<Rightarrow> args \<Rightarrow> tool_result \<times> call list \<times> 's" where
  "get_search_job_results_tool net s a =
     attempt_built net s
       (search_results_request (arg a ''job_id'') (arg a ''limit'') (arg a ''offset''))
       json_result error_result"

definition list_monitors_tool ::
  "'s client \<Rightarrow> 's \<Rightarrow> args \<Rightarrow> tool_result \<times> call list \<times> 's" where
  "list_monitors_tool net s a =
     attempt net s
       (client_get ''/v1/monitors'')
       json_result error_result"

definition get_monitor_tool ::
  "'s client \<Rightarrow> 's \<Rightarrow> args \<Rightarrow> tool_result \<times> call list \<times> 's" where
  "get_monitor_tool net s a =
     attempt net s
       (client_get (''/v1/monitors/'' @ toString (arg a ''monitor_id'')))
       json_result error_result"

section \<open>The handlers of index.ts (the execute functions of sumoLogicTools)\<close>

text \<open>
  An \<open>execute\<close> function resolves with a value or rejects with what it throws. Except
  in \<open>check_connection\<close>, the \<open>catch\<close> is \<open>throw new Error(handleApiError(error))\<close>.
\<close>

definition resolve_data :: "response \<Rightarrow> thrown + jsval" where
  "resolve_data response = Inr (data response)"

definition rethrow :: "thrown \<Rightarrow> thrown + jsval" where
  "rethrow error =
     (case handleApiError_index error of
        Inl t \<Rightarrow> Inl t
      | Inr m \<Rightarrow> Inl (JsError m))"

definition check_connection_execute ::
  "'s client \<Rightarrow> 's \<Rightarrow> args \<Rightarrow> (thrown + jsval) \<times> call list \<times> 's" where
  "check_connection_execute net s a =
     attempt net s (client_get ''/v1/collectors'')
       (\<lambda>_. Inr connection_ok)
       (\<lambda>error. case handleApiError_index error of
                   Inl t \<Rightarrow> Inl t
                 | Inr m \<Rightarrow> Inr (connection_failed m))"

definition list_collectors_execute ::
  "'s client \<Rightarrow> 's \<Rightarrow> args \<Rightarrow> (thrown + jsval) \<times> call list \<times> 's" where
  "list_collectors_execute net s a =
     attempt net s
       (client_get ''/v1/collectors'')
       resolve_data rethrow"

definition get_collector_execute ::
  "'s client \<Rightarrow> 's \<Rightarrow> args \<Rightarrow> (thrown + jsval) \<times> call list \<times> 's" where
  "get_collector_execute net s a =
     attempt net s
       (client_get (''/v1/collectors/'' @ toString (arg a ''collector_id'')))
       resolve_data rethrow"

definition create_hosted_collector_execute ::
  "'s client \<Rightarrow> 's \<Rightarrow> args \<Rightarrow> (thrown + jsval) \<times> call list \<times> 's" where
  "create_hosted_collector_execute net s a =
     attempt net s
       (client_post ''/v1/collectors''
        (create_collectorData (arg a ''name'') (arg a ''description'') (arg a ''category'') (arg a ''fields'')))
       resolve_data rethrow"

definition update_collector_execute ::
  "'s client \<Rightarrow> 's \<Rightarrow> args \<Rightarrow> (thrown + jsval) \<times> call list \<times> 's" where
  "update_collector_execute net s a =
     update_collector_flow net s a resolve_data rethrow"

definition delete_collector_execute ::
  "'s client \<Rightarrow> 's \<Rightarrow> args \<Rightarrow> (thrown + jsval) \<times> call list \<times> 's" where
  "delete_collector_execute net s a =
     attempt net s
       (client_delete (''/v1/collectors/'' @ toString (arg a ''collector_id'')))
       (\<lambda>_. Inr (deleted_payload (arg a ''collector_id''))) rethrow"

definition list_sources_execute ::
  "'s client \<Rightarrow> 's \<Rightarrow> args \<Rightarrow> (thrown + jsval) \<times> call list \<times> 's" where
  "list_sources_execute net s a =
     attempt net s
       (client_get (''/v1/collectors/'' @ toString (arg a ''collector_id'') @ ''/sources''))
       resolve_data rethrow"

definition get_source_execute ::
  "'s client \<Rightarrow> 's \<Rightarrow> args \<Rightarrow> (thrown + jsval) \<times> call list \<times> 's" where
  "get_source_execute net s a =
     attempt net s
       (client_get (''/v1/collectors/'' @ toString (arg a ''collector_id'') @ ''/sources/''
        @ toString (arg a ''source_id'')))
       resolve_data rethrow"

definition create_http_source_execute ::
  "'s client \<Rightarrow> 's \<Rightarrow> args \<Rightarrow> (thrown + jsval) \<times> call list \<times> 's" where
  "create_http_source_execute net s a =
     attempt net s
       (client_post (''/v1/collectors/'' @ toString (arg a ''collector_id'') @ ''/sources'')
        (sourceData (arg a ''name'') (arg a ''description'') (arg a ''category'') (arg a ''fields'')))
       resolve_data rethrow"

definition start_search_job_execute ::
  "'s client \<Rightarrow> 's \<Rightarrow> args \<Rightarrow> (thrown + jsval) \<times> call list \<times> 's" where
  "start_search_job_execute net s a =
     attempt net s
       (client_post ''/v1/search/jobs''
        (searchJobData (arg a ''query'') (arg a ''from_time'') (arg a ''to_time'') (arg a ''time_zone'')))
       resolve_data rethrow"

definition check_search_job_status_execute ::
  "'s client \<Rightarrow> 's \<Rightarrow> args \<Rightarrow> (thrown + jsval) \<times> call list \<times> 's" where
  "check_search_job_status_execute net s a =
     attempt net s
       (client_get (''/v1/search/jobs/'' @ toString (arg a ''job_id'')))
       resolve_data rethrow"

definition get_search_job_results_execute ::
  "'s client \<Rightarrow> 's \<Rightarrow> args \<Rightarrow> (thrown + jsval) \<times> call list \<times> 's" where
  "get_search_job_results_execute net s a =
     attempt_built net s
       (search_results_request (arg a ''job_id'') (arg a ''limit'') (arg a ''offset''))
       resolve_data rethrow"

definition list_monitors_execute ::
  "'s client \<Rightarrow> 's \<Rightarrow> args \<Rightarrow> (thrown + jsval) \<times> call list \<times> 's" where
  "list_monitors_execute net s a =
     attempt net s
       (client_get ''/v1/monitors'')
       resolve_data rethrow"

definition get_monitor_execute ::
  "'s client \<Rightarrow> 's \<Rightarrow> args \<Rightarrow> (thrown + jsval) \<times> call list \<times> 's" where
  "get_monitor_execute net s a =
     attempt net s
       (client_get (''/v1/monitors/'' @ toString (arg a ''monitor_id'')))
       resolve_data rethrow"

section \<open>The tool registries\<close>

text \<open>
  \<open>index.ts\<close>: the array \<open>sumoLogicTools\<close>. Each entry has a name, its parameters
  (name, type, required flag) and its \<open>execute\<close> function; the free-text descriptions
  are left out.
\<close>

record McpToolParameter =
  param_name :: string
  param_type :: string
  required :: bool

record 's McpToolDefinition =
  tool_name :: string
  parameters :: "McpToolParameter list"
  execute :: "'s client \<Rightarrow> 's \<Rightarrow> args \<Rightarrow> (thrown + jsval) \<times> call list \<times> 's"

definition sumoLogicTools :: "'s McpToolDefinition list" where
  "sumoLogicTools =
    [\<lparr>tool_name = ''check_connection'',
      parameters = [],
      execute = check_connection_execute\<rparr>,
     \<lparr>tool_name = ''list_collectors'',
      parameters = [],
      execute = list_collectors_execute\<rparr>,
     \<lparr>tool_name = ''get_collector'',
      parameters = [\<lparr>param_name = ''collector_id'', param_type = ''string'', required = True\<rparr>],
      execute = get_collector_execute\<rparr>,
     \<lparr>tool_name = ''create_hosted_collector'',
      parameters = [\<lparr>param_name = ''name'', param_type = ''string'', required = True\<rparr>,
        \<lparr>param_name = ''description'', param_type = ''string'', required = False\<rparr>,
        \<lparr>param_name = ''category'', param_type = ''string'', required = False\<rparr>,
        \<lparr>param_name = ''fields'', param_type = ''object'', required = False\<rparr>],
      execute = create_hosted_collector_execute\<rparr>,
     \<lparr>tool_name = ''update_collector'',
      parameters = [\<lparr>param_name = ''collector_id'', param_type = ''string'', required = True\<rparr>,
        \<lparr>param_name = ''name'', param_type = ''string'', required = False\<rparr>,
        \<lparr>param_name = ''description'', param_type = ''string'', required = False\<rparr>,
        \<lparr>param_name = ''category'', param_type = ''string'', required = False\<rparr>,
        \<lparr>param_name = ''fields'', param_type = ''object'', required = False\<rparr>],
      execute = update_collector_execute\<rparr>,
     \<lparr>tool_name = ''delete_collector'',
      parameters = [\<lparr>param_name = ''collector_id'', param_type = ''string'', required = True\<rparr>],
      execute = delete_collector_execute\<rparr>,
     \<lparr>tool_name = ''list_sources'',
      parameters = [\<lparr>param_name = ''collector_id'', param_type = ''string'', required = True\<rparr>],
      execute = list_sources_execute\<rparr>,
     \<lparr>tool_name = ''get_source'',
      parameters = [\<lparr>param_name = ''collector_id'', param_type = ''string'', required = True\<rparr>,
        \<lparr>param_name = ''source_id'', param_type = ''string'', required = True\<rparr>],
      execute = get_source_execute\<rparr>,
     \<lparr>tool_name = ''create_http_source'',
      parameters = [\<lparr>param_name = ''collector_id'', param_type = ''string'', required = True\<rparr>,
        \<lparr>param_name = ''name'', param_type = ''string'', required = True\<rparr>,
        \<lparr>param_name = ''description'', param_type = ''string'', required = False\<rparr>,
        \<lparr>param_name = ''category'', param_type = ''string'', required = False\<rparr>,
        \<lparr>param_name = ''fields'', param_type = ''object'', required = False\<rparr>],
      execute = create_http_source_execute\<rparr>,
     \<lparr>tool_name = ''start_search_job'',
      parameters = [\<lparr>param_name = ''query'', param_type = ''string'', required = True\<rparr>,
        \<lparr>param_name = ''from_time'', param_type = ''string'', required = True\<rparr>,
        \<lparr>param_name = ''to_time'', param_type = ''string'', required = True\<rparr>,
        \<lparr>param_name = ''time_zone'', param_type = ''string'', required = False\<rparr>],
      execute = start_search_job_execute\<rparr>,
     \<lparr>tool_name = ''check_search_job_status'',
      parameters = [\<lparr>param_name = ''job_id'', param_type = ''string'', required = True\<rparr>],
      execute = check_search_job_status_execute\<rparr>,
     \<lparr>tool_name = ''get_search_job_results'',
      parameters = [\<lparr>param_name = ''job_id'', param_type = ''string'', required = True\<rparr>,
        \<lparr>param_name = ''limit'', param_type = ''number'', required = False\<rparr>,
        \<lparr>param_name = ''offset'', param_type = ''number'', required = False\<rparr>],
      execute = get_search_job_results_execute\<rparr>,
     \<lparr>tool_name = ''list_monitors'',
      parameters = [],
      execute = list_monitors_execute\<rparr>,
     \<lparr>tool_name = ''get_monitor'',
      parameters = [\<lparr>param_name = ''monitor_id'', param_type = ''string'', required = True\<rparr>],
      execute = get_monitor_execute\<rparr>]"

text \<open>
  \<open>README.md\<close>: the calls \<open>server.tool(name, description, schema, handler)\<close>, in
  order. A schema maps each parameter to its zod type.
\<close>

datatype zod = ZString | ZNumber | ZRecord zod | ZOptional zod

type_synonym 's registered_tool =
  "string \<times> (string \<times> zod) list \<times> ('s client \<Rightarrow> 's \<Rightarrow> args \<Rightarrow> tool_result \<times> call list \<times> 's)"

definition server_tools :: "'s registered_tool list" where
  "server_tools =
    [(''check_connection'', [],
      check_connection_tool),
     (''list_collectors'', [],
      list_collectors_tool),
     (''get_collector'', [(''collector_id'', ZString)],
      get_collector_tool),
     (''create_hosted_collector'', [(''name'', ZString), (''description'', ZOptional (ZString)), (''category'', ZOptional (ZString)), (''fields'', ZOptional (ZRecord ZString))],
      create_hosted_collector_tool),
     (''update_collector'', [(''collector_id'', ZString), (''name'', ZOptional (ZString)), (''description'', ZOptional (ZString)), (''category'', ZOptional (ZString)), (''fields'', ZOptional (ZRecord ZString))],
      update_collector_tool),
     (''delete_collector'', [(''collector_id'', ZString)],
      delete_collector_tool),
     (''list_sources'', [(''collector_id'', ZString)],
      list_sources_tool),
     (''get_source'', [(''collector_id'', ZString), (''source_id'', ZString)],
      get_source_tool),
     (''create_http_source'', [(''collector_id'', ZString), (''name'', ZString), (''description'', ZOptional (ZString)), (''category'', ZOptional (ZString)), (''fields'', ZOptional (ZRecord ZString))],
      create_http_source_tool),
     (''start_search_job'', [(''query'', ZString), (''from_time'', ZString), (''to_time'', ZString), (''time_zone'', ZOptional (ZString))],
      start_search_job_tool),
     (''check_search_job_status'', [(''job_id'', ZString)],
      check_search_job_status_tool),
     (''get_search_job_results'', [(''job_id'', ZString), (''limit'', ZOptional (ZNumber)), (''offset'', ZOptional (ZNumber))],
      get_search_job_results_tool),
     (''list_monitors'', [],
      list_monitors_tool),
     (''get_monitor'', [(''monitor_id'', ZString)],
      get_monitor_tool)]"

section \<open>Startup\<close>

text \<open>
  The module's top level, as the events it causes, in order. \<open>process.env\<close> (after
  \<open>dotenv.config()\<close>) is a map from variable names to strings; \<open>process.exit\<close> ends the
  run. Whether \<open>server.connect\<close> succeeds is decided outside the program.
\<close>

text \<open>\<open>process.env.K || d\<close>: an unset and an empty variable both give \<open>d\<close>.\<close>

definition env_or :: "string option \<Rightarrow> string \<Rightarrow> string" where
  "env_or v d = (case v of None \<Rightarrow> d | Some x \<Rightarrow> if x = [] then d else x)"

record client_config =
  withCredentials :: "bool option"
  baseURL :: string
  username :: string
  password :: string
  default_headers :: "(string \<times> string) list"

datatype event =
    ConsoleError string
  | ProcessExit int
  | AxiosCreate client_config
  | CreateServer
  | RegisterTool string
  | Connect

definition credentials_message :: string where
  "credentials_message =
     ''SumoLogic API credentials not provided. Please set SUMOLOGIC_ACCESS_ID and SUMOLOGIC_ACCESS_KEY environment variables.''"

definition json_headers :: "(string \<times> string) list" where
  "json_headers = [(''Content-Type'', ''application/json''), (''Accept'', ''application/json'')]"

text \<open>\<open>main()\<close>: announce, connect, and exit with 1 when connecting fails.\<close>

definition main_events :: "bool \<Rightarrow> event list" where
  "main_events connect_ok =
     [ConsoleError ''SumoLogic MCP Server starting...'', Connect] @
     (if connect_ok then [ConsoleError ''SumoLogic MCP Server connected and ready'']
      else [ConsoleError ''Error connecting MCP server:'', ProcessExit 1])"

text \<open>\<open>index.ts\<close>: the server is created and the tools are registered inside \<open>main()\<close>.\<close>

definition startup_index :: "(string \<rightharpoonup> string) \<Rightarrow> bool \<Rightarrow> event list" where
  "startup_index env connect_ok =
     (let SUMOLOGIC_ACCESS_ID = env_or (env ''SUMOLOGIC_ACCESS_ID'') [];
          SUMOLOGIC_ACCESS_KEY = env_or (env ''SUMOLOGIC_ACCESS_KEY'') [];
          SUMOLOGIC_API_ENDPOINT = env_or (env ''SUMOLOGIC_API_ENDPOINT'') ''https://api.sumologic.com/api''
      in if SUMOLOGIC_ACCESS_ID = [] \<or> SUMOLOGIC_ACCESS_KEY = []
         then [ConsoleError credentials_message, ProcessExit 1]
         else [AxiosCreate \<lparr>withCredentials = None, baseURL = SUMOLOGIC_API_ENDPOINT,
                  username = SUMOLOGIC_ACCESS_ID, password = SUMOLOGIC_ACCESS_KEY,
                  default_headers = json_headers\<rparr>,
               CreateServer]
              @ map (\<lambda>tool. RegisterTool (tool_name tool)) (sumoLogicTools :: unit McpToolDefinition list)
              @ main_events connect_ok)"

text \<open>\<open>README.md\<close>: the server is created and the tools are registered at the top level.\<close>

definition startup_readme :: "(string \<rightharpoonup> string) \<Rightarrow> bool \<Rightarrow> event list" where
  "startup_readme env connect_ok =
     (let SUMOLOGIC_ACCESS_ID = env_or (env ''SUMOLOGIC_ACCESS_ID'') [];
          SUMOLOGIC_ACCESS_KEY = env_or (env ''SUMOLOGIC_ACCESS_KEY'') [];
          SUMOLOGIC_API_ENDPOINT = env_or (env ''SUMOLOGIC_API_ENDPOINT'') ''https://api.sumologic.com/api''
      in if SUMOLOGIC_ACCESS_ID = [] \<or> SUMOLOGIC_ACCESS_KEY = []
         then [ConsoleError credentials_message, ProcessExit 1]
         else [AxiosCreate \<lparr>withCredentials = Some True, baseURL = SUMOLOGIC_API_ENDPOINT,
                  username = SUMOLOGIC_ACCESS_ID, password = SUMOLOGIC_ACCESS_KEY,
                  default_headers = json_headers\<rparr>,
               CreateServer]
              @ map (\<lambda>tool. RegisterTool (fst tool)) (server_tools :: unit registered_tool list)
              @ main_events connect_ok)"

section \<open>Invocation through the protocol runtime\<close>

text \<open>
  Modelled from the spec: the validation of an invocation against the tool's schema,
  which the protocol runtime (the MCP SDK the server imports, not part of the sources)
  performs before it calls the handler. The spec says an invocation is "validated
  against the matching ToolDescriptor's schema before the handler body runs (required
  parameters present, types coercible)". For \<open>index.ts\<close> only the presence of the
  required parameters is modelled (the spec does not say which values are coercible). A
  runtime that checks more rejects every invocation rejected here.
\<close>

definition required_present :: "McpToolParameter list \<Rightarrow> args \<Rightarrow> bool" where
  "required_present ps a =
     list_all (\<lambda>p. if required p then arg a (param_name p) \<noteq> JUndefined else True) ps"

text \<open>
  \<open>README.md\<close> declares each schema as a zod shape. A parameter is required when its
  zod type is not \<open>.optional()\<close>.
\<close>

fun optional :: "zod \<Rightarrow> bool" where
  "optional (ZOptional _) = True"
| "optional _ = False"

text \<open>
  Modelled from the spec: the check of one value against its zod type, which the zod
  library (imported, not part of the sources) performs. A value conforms when it has
  the declared type; only an optional parameter may be \<open>undefined\<close>.
\<close>

fun zod_accepts :: "zod \<Rightarrow> jsval \<Rightarrow> bool" where
  "zod_accepts ZString v = (case v of JStr _ \<Rightarrow> True | _ \<Rightarrow> False)"
| "zod_accepts ZNumber v = (case v of JNum _ \<Rightarrow> True | _ \<Rightarrow> False)"
| "zod_accepts (ZRecord t) v =
     (case v of JObj kvs \<Rightarrow> list_all (\<lambda>kv. zod_accepts t (snd kv)) kvs | _ \<Rightarrow> False)"
| "zod_accepts (ZOptional t) v = (if v = JUndefined then True else zod_accepts t v)"

text \<open>
  Modelled from the spec: the validation of an invocation of a tool of \<open>README.md\<close>,
  which the protocol runtime performs: every parameter of the schema conforms.
\<close>

definition schema_accepts :: "(string \<times> zod) list \<Rightarrow> args \<Rightarrow> bool" where
  "schema_accepts schema a = list_all (\<lambda>kt. zod_accepts (snd kt) (arg a (fst kt))) schema"

datatype 'r dispatched = UnknownTool | InvalidParams | Handled 'r

text \<open>
  Modelled from the spec: the dispatch of an invocation by the protocol runtime, for
  the tools of \<open>index.ts\<close>. The runtime resolves the tool by name, validates, and only
  then runs the handler; a rejected invocation makes no call.
\<close>

definition invoke_index ::
  "'s client \<Rightarrow> 's \<Rightarrow> string \<Rightarrow> args \<Rightarrow> (thrown + jsval) dispatched \<times> call list \<times> 's" where
  "invoke_index net s n a =
     (case find (\<lambda>tool. tool_name tool = n) sumoLogicTools of
        None \<Rightarrow> (UnknownTool, [], s)
      | Some tool \<Rightarrow>
          if required_present (parameters tool) a
          then (case execute tool net s a of (r, calls, s') \<Rightarrow> (Handled r, calls, s'))
          else (InvalidParams, [], s))"

text \<open>
  Modelled from the spec: the dispatch of an invocation by the protocol runtime, for
  the tools of \<open>README.md\<close>, in the same way.
\<close>

definition invoke_readme ::
  "'s client \<Rightarrow> 's \<Rightarrow> string \<Rightarrow> args \<Rightarrow> tool_result dispatched \<times> call list \<times> 's" where
  "invoke_readme net s n a =
     (case map_of server_tools n of
        None \<Rightarrow> (UnknownTool, [], s)
      | Some (schema, handler) \<Rightarrow>
          if schema_accepts schema a
          then (case handler net s a of (r, calls, s') \<Rightarrow> (Handled r, calls, s'))
          else (InvalidParams, [], s))"

section \<open>Reading a handler's outcome\<close>

definition result_of :: "'r \<times> call list \<times> 's \<Rightarrow> 'r" where
  "result_of out = fst out"

definition calls_of :: "'r \<times> call list \<times> 's \<Rightarrow> call list" where
  "calls_of out = fst (snd out)"

definition requests_of :: "'r \<times> call list \<times> 's \<Rightarrow> request list" where
  "requests_of out = map fst (calls_of out)"

section \<open>The error normalizer as the specification words it\<close>

text \<open>
  The specification: if the error carries a structured remote response (status code
  and body), the text is \<open>API Error: {status} - {json(body)}\<close>; else if it carries a
  message, \<open>Error: {message}\<close>; else \<open>Unknown error occurred\<close>. These definitions follow
  those words on every thrown value, whatever its class.
\<close>





text \<open>
  What a \<open>catch\<close> of a handler can hand to \<open>handleApiError\<close>: the rejection of a call on
  the client, which is an AxiosError, or a TypeError that the runtime raised inside the
  \<open>try\<close>.
\<close>

definition catchable :: "thrown \<Rightarrow> bool" where
  "catchable err =
     (case err of Axios e \<Rightarrow> True | JsError m \<Rightarrow> True | ErrorWithResponse m r \<Rightarrow> False
      | NonError v \<Rightarrow> False)"

section \<open>Remote services used as examples\<close>

definition collector_A :: jsval where
  "collector_A =
     JObj [(''name'', JStr ''A''), (''description'', JStr ''d''), (''category'', JStr ''c'')]"

definition fetched_A :: response where
  "fetched_A =
     \<lparr>status = 200, data = JObj [(''collector'', collector_A)], headers = [(''etag'', ''v1'')]\<rparr>"

definition precondition_failed :: axios_error where
  "precondition_failed =
     AxiosError ''Request failed with status code 412''
       (Some \<lparr>status = 412, data = JObj [(''message'', JStr ''etag mismatch'')], headers = []\<rparr>)"

text \<open>A remote that serves collector A on every GET and rejects every write with 412.\<close>

definition conflict_remote :: "nat client" where
  "conflict_remote s req =
     (if req_method req = GET then Inr fetched_A else Inl precondition_failed, Suc s)"

text \<open>A remote that serves collector A on every GET and echoes the body of every write.\<close>

definition echo_remote :: "nat client" where
  "echo_remote s req =
     (if req_method req = GET then Inr fetched_A
      else Inr \<lparr>status = 200,
                data = (case req_data req of None \<Rightarrow> JNull | Some d \<Rightarrow> d),
                headers = []\<rparr>,
      Suc s)"

text \<open>A remote that cannot be reached.\<close>

definition unreachable_remote :: "nat client" where
  "unreachable_remote s req = (Inl (AxiosError ''Network Error'' None), Suc s)"

section \<open>The error normalizer\<close>

text \<open>
  Every \<open>catch\<close> receives a catchable value: the result of a handler is either what it
  makes of a response, or what its \<open>catch\<close> makes of an AxiosError or a TypeError.
\<close>

lemma attempt_catches:
  "(\<exists>r. result_of (attempt net s req on_ok on_err) = on_ok r) \<or>
   (\<exists>t. catchable t \<and> result_of (attempt net s req on_ok on_err) = on_err t)"
proof (cases "net s req")
  case (Pair x s')
  show ?thesis
  proof (cases x)
    case (Inl e)
    have "catchable (Axios e)"
      by (simp add: catchable_def)
    moreover have "result_of (attempt net s req on_ok on_err) = on_err (Axios e)"
      using Pair Inl by (simp add: attempt_def result_of_def)
    ultimately show ?thesis by blast
  next
    case (Inr r)
    with Pair have "result_of (attempt net s req on_ok on_err) = on_ok r"
      by (simp add: attempt_def result_of_def)
    then show ?thesis by blast
  qed
qed

lemma getprop_catchable: "getprop v k = Inl t \<Longrightarrow> catchable t"
  by (auto simp: getprop_def catchable_def split: if_splits)

lemma toString_method_catchable: "toString_method v = Inl t \<Longrightarrow> catchable t"
  by (auto simp: toString_method_def catchable_def split: if_splits)

lemma optional_param_catchable: "optional_param k v = Inl t \<Longrightarrow> catchable t"
  by (auto simp: optional_param_def split: if_splits sum.splits dest: toString_method_catchable)

lemma search_params_catchable: "search_params limit offset = Inl t \<Longrightarrow> catchable t"
  by (auto simp: search_params_def split: sum.splits dest: optional_param_catchable)

lemma search_results_request_catchable:
  "search_results_request job_id limit offset = Inl t \<Longrightarrow> catchable t"
  by (auto simp: search_results_request_def split: sum.splits dest: search_params_catchable)

lemma attempt_built_catches:
  assumes "\<And>t. built = Inl t \<Longrightarrow> catchable t"
  shows "(\<exists>r. result_of (attempt_built net s built on_ok on_err) = on_ok r) \<or>
   (\<exists>t. catchable t \<and> result_of (attempt_built net s built on_ok on_err) = on_err t)"
proof (cases built)
  case (Inl t)
  with assms have "catchable t" by simp
  moreover from Inl have "result_of (attempt_built net s built on_ok on_err) = on_err t"
    by (simp add: attempt_built_def result_of_def)
  ultimately show ?thesis by blast
next
  case (Inr req)
  then show ?thesis
    using attempt_catches [of net s req on_ok on_err] by (simp add: attempt_built_def)
qed

lemma or_current_catchable: "or_current v cur k = Inl t \<Longrightarrow> catchable t"
  by (auto simp: or_current_def split: if_splits dest: getprop_catchable)

lemma defined_or_current_catchable: "defined_or_current v cur k = Inl t \<Longrightarrow> catchable t"
  by (auto simp: defined_or_current_def split: if_splits dest: getprop_catchable)

lemma update_collectorData_catchable:
  "update_collectorData cur n d c f = Inl t \<Longrightarrow> catchable t"
  by (auto simp: update_collectorData_def split: sum.splits
      dest: or_current_catchable defined_or_current_catchable)

lemma update_collector_flow_catches:
  "(\<exists>r. result_of (update_collector_flow net s a on_ok on_err) = on_ok r) \<or>
   (\<exists>t. catchable t \<and> result_of (update_collector_flow net s a on_ok on_err) = on_err t)"
proof -
  let ?url = "''/v1/collectors/'' @ toString (arg a ''collector_id'')"
  let ?flow = "update_collector_flow net s a on_ok on_err"
  obtain x s1 where get: "net s (client_get ?url) = (x, s1)"
    by (cases "net s (client_get ?url)")
  show ?thesis
  proof (cases x)
    case (Inl e)
    have "catchable (Axios e)"
      by (simp add: catchable_def)
    moreover have "result_of ?flow = on_err (Axios e)"
      using get Inl by (simp add: update_collector_flow_def result_of_def Let_def)
    ultimately show ?thesis by blast
  next
    case fetched: (Inr getResponse)
    show ?thesis
    proof (cases "getprop (data getResponse) ''collector''")
      case (Inl t)
      then have "catchable t"
        by (rule getprop_catchable)
      moreover have "result_of ?flow = on_err t"
        using get fetched Inl by (simp add: update_collector_flow_def result_of_def Let_def)
      ultimately show ?thesis by blast
    next
      case current: (Inr currentCollector)
      show ?thesis
      proof (cases "update_collectorData currentCollector (arg a ''name'') (arg a ''description'')
                      (arg a ''category'') (arg a ''fields'')")
        case (Inl t)
        then have "catchable t"
          by (rule update_collectorData_catchable)
        moreover have "result_of ?flow = on_err t"
          using get fetched current Inl
          by (simp add: update_collector_flow_def result_of_def Let_def)
        ultimately show ?thesis by blast
      next
        case merged: (Inr collectorData)
        let ?put = "client_put ?url collectorData [(''If-Match'', etag_of getResponse)]"
        obtain y s2 where put: "net s1 ?put = (y, s2)"
          by (cases "net s1 ?put")
        show ?thesis
        proof (cases y)
          case (Inl e)
          have "catchable (Axios e)"
            by (simp add: catchable_def)
          moreover have "result_of ?flow = on_err (Axios e)"
            using get fetched current merged put Inl
            by (simp add: update_collector_flow_def result_of_def Let_def)
          ultimately show ?thesis by blast
        next
          case (Inr response)
          have "result_of ?flow = on_ok response"
            using get fetched current merged put Inr
            by (simp add: update_collector_flow_def result_of_def Let_def)
          then show ?thesis by blast
        qed
      qed
    qed
  qed
qed





text \<open>The example of the specification: status 404 with body \<open>{"error":"not found"}\<close>.\<close>

lemma handleApiError_404:
  "handleApiError_readme (Axios (AxiosError ''Request failed with status code 404''
      (Some \<lparr>status = 404, data = JObj [(''error'', JStr ''not found'')], headers = []\<rparr>)))
   = ''API Error: 404 - {'' @ [CHR 0x22] @ ''error'' @ [CHR 0x22] @ '':'' @ [CHR 0x22]
       @ ''not found'' @ [CHR 0x22] @ ''}''"
  by (simp add: handleApiError_readme_def api_error_text_def template_opt_def show_int_def
        show_nat.simps digit_char_def quote_def escape_char_def)

section \<open>update_collector\<close>

lemma map_of_set_prop: "map_of (set_prop k v ps) = (map_of ps)(k \<mapsto> v)"
  by (induction ps) (auto simp: fun_eq_iff)

lemma update_collectorData_defined:
  assumes "\<not> nullish cur"
  shows "update_collectorData cur n d c f =
     Inr (JObj [(''collector'',
        JObj (set_prop ''fields'' (if truthy f then f else prop_of cur ''fields'')
          (set_prop ''category'' (if truthy c then c else prop_of cur ''category'')
            (set_prop ''description'' (if d \<noteq> JUndefined then d else prop_of cur ''description'')
              (set_prop ''name'' (if truthy n then n else prop_of cur ''name'') (spread cur))))))])"
  using assms
  by (simp add: update_collectorData_def or_current_def defined_or_current_def getprop_def)

lemma update_collector_flow_requests:
  assumes "net s (client_get (''/v1/collectors/'' @ toString (arg a ''collector_id''))) = (Inr g, s1)"
    and "getprop (data g) ''collector'' = Inr cur"
    and "update_collectorData cur (arg a ''name'') (arg a ''description'') (arg a ''category'')
           (arg a ''fields'') = Inr body"
  shows "requests_of (update_collector_flow net s a on_ok on_err) =
     [client_get (''/v1/collectors/'' @ toString (arg a ''collector_id'')),
      client_put (''/v1/collectors/'' @ toString (arg a ''collector_id'')) body
        [(''If-Match'', etag_of g)]]"
  using assms
  by (simp add: update_collector_flow_def requests_of_def calls_of_def Let_def
      split: prod.splits sum.splits)

text \<open>
  C1. When the GET of \<open>update_collector\<close> returns the collector
  \<open>{name: "A", description: "d", category: "c"}\<close> with the \<open>etag\<close> header \<open>v1\<close>, and the
  caller supplies nothing but \<open>name = "B"\<close> (besides the collector id), the handler of
  either file issues the GET and then exactly one PUT, to the same path, whose body is
  \<open>{collector: {name: "B", description: "d", category: "c", fields: undefined}}\<close> and
  whose \<open>If-Match\<close> header is \<open>v1\<close>. The \<open>fields\<close> entry is \<open>undefined\<close>, so the body is
  serialized as the fetched collector with the name replaced.
\<close>

theorem update_collector_name_only:
  assumes "net s (client_get (''/v1/collectors/'' @ toString (arg a ''collector_id''))) =
             (Inr getResponse, s1)"
    and "data getResponse = JObj [(''collector'',
           JObj [(''name'', JStr ''A''), (''description'', JStr ''d''), (''category'', JStr ''c'')])]"
    and "map_of (headers getResponse) ''etag'' = Some ''v1''"
    and "arg a ''name'' = JStr ''B''" and "arg a ''description'' = JUndefined"
    and "arg a ''category'' = JUndefined" and "arg a ''fields'' = JUndefined"
  shows "requests_of (update_collector_tool net s a) =
       [client_get (''/v1/collectors/'' @ toString (arg a ''collector_id'')),
        \<lparr>req_method = PUT, req_url = ''/v1/collectors/'' @ toString (arg a ''collector_id''),
         req_data = Some (JObj [(''collector'', JObj [(''name'', JStr ''B''),
                       (''description'', JStr ''d''), (''category'', JStr ''c''),
                       (''fields'', JUndefined)])]),
         req_params = [], req_headers = [(''If-Match'', JStr ''v1'')]\<rparr>]
     \<and> requests_of (update_collector_execute net s a) = requests_of (update_collector_tool net s a)
     \<and> JSON_stringify (JObj [(''collector'', JObj [(''name'', JStr ''B''),
                       (''description'', JStr ''d''), (''category'', JStr ''c''),
                       (''fields'', JUndefined)])])
       = JSON_stringify (JObj [(''collector'', JObj [(''name'', JStr ''B''),
                       (''description'', JStr ''d''), (''category'', JStr ''c'')])])"
proof -
  let ?cur = "JObj [(''name'', JStr ''A''), (''description'', JStr ''d''), (''category'', JStr ''c'')]"
  let ?body = "JObj [(''collector'', JObj [(''name'', JStr ''B''), (''description'', JStr ''d''),
                       (''category'', JStr ''c''), (''fields'', JUndefined)])]"
  have cur: "getprop (data getResponse) ''collector'' = Inr ?cur"
    by (simp add: assms(2) getprop_def nullish_def prop_of_def)
  have body: "update_collectorData ?cur (arg a ''name'') (arg a ''description'') (arg a ''category'')
                (arg a ''fields'') = Inr ?body"
    by (simp add: assms(4-7) update_collectorData_def or_current_def defined_or_current_def
          getprop_def nullish_def prop_of_def)
  have etag: "etag_of getResponse = JStr ''v1''"
    by (simp add: etag_of_def assms(3))
  have flow: "requests_of (update_collector_flow net s a on_ok on_err) =
     [client_get (''/v1/collectors/'' @ toString (arg a ''collector_id'')),
      client_put (''/v1/collectors/'' @ toString (arg a ''collector_id'')) ?body
        [(''If-Match'', JStr ''v1'')]]"
    for on_ok :: "response \<Rightarrow> 'r" and on_err
    using update_collector_flow_requests [of net s a getResponse s1 ?cur ?body on_ok on_err]
      assms(1) cur body
    by (simp add: etag)
  show ?thesis
    by (simp add: update_collector_tool_def update_collector_execute_def flow client_put_def)
qed

theorem update_collector_name_only_witness:
  "requests_of (update_collector_tool conflict_remote 0
      [(''collector_id'', JStr ''7''), (''name'', JStr ''B'')]) =
       [client_get ''/v1/collectors/7'',
        \<lparr>req_method = PUT, req_url = ''/v1/collectors/7'',
         req_data = Some (JObj [(''collector'', JObj [(''name'', JStr ''B''),
                       (''description'', JStr ''d''), (''category'', JStr ''c''),
                       (''fields'', JUndefined)])]),
         req_params = [], req_headers = [(''If-Match'', JStr ''v1'')]\<rparr>]"
  using update_collector_name_only [of conflict_remote 0
      "[(''collector_id'', JStr ''7''), (''name'', JStr ''B'')]" fetched_A 1]
  by (simp add: conflict_remote_def client_get_def fetched_A_def collector_A_def arg_def)

text \<open>
  C2. In the merge step of \<open>update_collector\<close> (either file), with a fetched collector
  that is neither \<open>null\<close> nor \<open>undefined\<close>: the body of the PUT is \<open>{collector: ...}\<close>
  where \<open>description\<close> is the supplied value whenever one is supplied (anything but
  \<open>undefined\<close>, so also the empty string) and the fetched value otherwise, while
  \<open>name\<close>, \<open>category\<close> and \<open>fields\<close> are the supplied value only when it is truthy and
  the fetched value otherwise. So an empty string for \<open>name\<close> or \<open>category\<close>, or a
  falsy \<open>fields\<close>, keeps the fetched value.
\<close>

theorem update_collector_merge:
  assumes "net s (client_get (''/v1/collectors/'' @ toString (arg a ''collector_id''))) =
             (Inr getResponse, s1)"
    and "getprop (data getResponse) ''collector'' = Inr currentCollector"
    and "\<not> nullish currentCollector"
  shows "\<exists>collector.
      requests_of (update_collector_tool net s a) =
        [client_get (''/v1/collectors/'' @ toString (arg a ''collector_id'')),
         client_put (''/v1/collectors/'' @ toString (arg a ''collector_id''))
           (JObj [(''collector'', JObj collector)]) [(''If-Match'', etag_of getResponse)]]
    \<and> requests_of (update_collector_execute net s a) = requests_of (update_collector_tool net s a)
    \<and> map_of collector ''description'' =
        Some (if arg a ''description'' \<noteq> JUndefined then arg a ''description''
              else prop_of currentCollector ''description'')
    \<and> map_of collector ''name'' =
        Some (if truthy (arg a ''name'') then arg a ''name'' else prop_of currentCollector ''name'')
    \<and> map_of collector ''category'' =
        Some (if truthy (arg a ''category'') then arg a ''category''
              else prop_of currentCollector ''category'')
    \<and> map_of collector ''fields'' =
        Some (if truthy (arg a ''fields'') then arg a ''fields''
              else prop_of currentCollector ''fields'')"
proof -
  let ?url = "''/v1/collectors/'' @ toString (arg a ''collector_id'')"
  let ?c = "set_prop ''fields''
       (if truthy (arg a ''fields'') then arg a ''fields'' else prop_of currentCollector ''fields'')
       (set_prop ''category''
         (if truthy (arg a ''category'') then arg a ''category''
          else prop_of currentCollector ''category'')
         (set_prop ''description''
           (if arg a ''description'' \<noteq> JUndefined then arg a ''description''
            else prop_of currentCollector ''description'')
           (set_prop ''name''
             (if truthy (arg a ''name'') then arg a ''name'' else prop_of currentCollector ''name'')
             (spread currentCollector))))"
  have body: "update_collectorData currentCollector (arg a ''name'') (arg a ''description'')
      (arg a ''category'') (arg a ''fields'') = Inr (JObj [(''collector'', JObj ?c)])"
    using update_collectorData_defined [OF assms(3)] by simp
  have flow: "requests_of (update_collector_flow net s a on_ok on_err) =
     [client_get ?url,
      client_put ?url (JObj [(''collector'', JObj ?c)]) [(''If-Match'', etag_of getResponse)]]"
    for on_ok :: "response \<Rightarrow> 'r" and on_err
    using update_collector_flow_requests [of net s a getResponse s1 currentCollector
        "JObj [(''collector'', JObj ?c)]" on_ok on_err] assms(1,2) body
    by simp
  have t: "requests_of (update_collector_tool net s a) =
     [client_get ?url,
      client_put ?url (JObj [(''collector'', JObj ?c)]) [(''If-Match'', etag_of getResponse)]]"
    by (simp only: update_collector_tool_def flow)
  have e: "requests_of (update_collector_execute net s a) = requests_of (update_collector_tool net s a)"
    by (simp only: update_collector_tool_def update_collector_execute_def flow)
  have d: "map_of ?c ''description'' =
        Some (if arg a ''description'' \<noteq> JUndefined then arg a ''description''
              else prop_of currentCollector ''description'')"
    by (simp add: map_of_set_prop)
  have n: "map_of ?c ''name'' =
        Some (if truthy (arg a ''name'') then arg a ''name'' else prop_of currentCollector ''name'')"
    by (simp add: map_of_set_prop)
  have c: "map_of ?c ''category'' =
        Some (if truthy (arg a ''category'') then arg a ''category''
              else prop_of currentCollector ''category'')"
    by (simp add: map_of_set_prop)
  have f: "map_of ?c ''fields'' =
        Some (if truthy (arg a ''fields'') then arg a ''fields''
              else prop_of currentCollector ''fields'')"
    by (simp add: map_of_set_prop)
  from t e d n c f show ?thesis by blast
qed

theorem update_collector_merge_witness:
  "\<exists>collector.
      requests_of (update_collector_tool echo_remote 0
          [(''collector_id'', JStr ''7''), (''name'', JStr []), (''description'', JStr []),
           (''category'', JStr [])]) =
        [client_get ''/v1/collectors/7'',
         client_put ''/v1/collectors/7'' (JObj [(''collector'', JObj collector)])
           [(''If-Match'', JStr ''v1'')]]
    \<and> map_of collector ''description'' = Some (JStr [])
    \<and> map_of collector ''name'' = Some (JStr ''A'')
    \<and> map_of collector ''category'' = Some (JStr ''c'')
    \<and> map_of collector ''fields'' = Some JUndefined"
  using update_collector_merge [of echo_remote 0
      "[(''collector_id'', JStr ''7''), (''name'', JStr []), (''description'', JStr []),
        (''category'', JStr [])]" fetched_A 1 collector_A]
  by (simp add: echo_remote_def client_get_def fetched_A_def collector_A_def arg_def getprop_def
        nullish_def prop_of_def etag_of_def)
     blast

lemma handleApiError_index_Axios_readme:
  "handleApiError_index (Axios e) = Inr (handleApiError_readme (Axios e))"
  by (simp add: handleApiError_index_def handleApiError_readme_def
      split: axios_error.splits option.splits)

lemma rethrow_Axios: "rethrow (Axios e) = Inl (JsError (handleApiError_readme (Axios e)))"
  by (simp add: rethrow_def handleApiError_index_Axios_readme)

lemma update_collector_flow_calls:
  "length (filter (\<lambda>c. req_method (fst c) = PUT)
      (calls_of (update_collector_flow net s a on_ok on_err))) \<le> 1"
  by (simp add: update_collector_flow_def calls_of_def Let_def client_get_def client_put_def
      split: prod.splits sum.splits)

lemma update_collector_flow_rejected:
  assumes "(q, Inl e) \<in> set (calls_of (update_collector_flow net s a on_ok on_err))"
    and "req_method q = PUT"
  shows "result_of (update_collector_flow net s a on_ok on_err) = on_err (Axios e) \<and>
         (\<exists>g r. calls_of (update_collector_flow net s a on_ok on_err) = [(g, Inr r), (q, Inl e)]
                \<and> req_method g = GET)"
  using assms
  by (auto simp: update_collector_flow_def calls_of_def result_of_def Let_def client_get_def
        client_put_def split: prod.splits sum.splits)

text \<open>
  C5, as the code has it. Whatever the remote service answers, \<open>update_collector\<close>
  issues at most one PUT. When that PUT is rejected (with a precondition-failed status
  or any other failure), the calls made are exactly the GET, which succeeded, and the
  rejected PUT: nothing is fetched again and nothing is written a second time. The
  handler of \<open>README.md\<close> then returns the error-flagged result with the normalized
  text; the handler of \<open>index.ts\<close> returns nothing: it rejects with an Error whose
  message is the normalized text.
\<close>

theorem update_collector_single_write:
  "length (filter (\<lambda>c. req_method (fst c) = PUT) (calls_of (update_collector_tool net s a))) \<le> 1 \<and>
   length (filter (\<lambda>c. req_method (fst c) = PUT) (calls_of (update_collector_execute net s a))) \<le> 1 \<and>
   (\<forall>q e. (q, Inl e) \<in> set (calls_of (update_collector_tool net s a)) \<and> req_method q = PUT \<longrightarrow>
      result_of (update_collector_tool net s a) =
        \<lparr>content = [TextBlock (Some (handleApiError_readme (Axios e)))], isError = Some True\<rparr> \<and>
      (\<exists>g r. calls_of (update_collector_tool net s a) = [(g, Inr r), (q, Inl e)] \<and>
             req_method g = GET)) \<and>
   (\<forall>q e. (q, Inl e) \<in> set (calls_of (update_collector_execute net s a)) \<and> req_method q = PUT \<longrightarrow>
      result_of (update_collector_execute net s a) =
        Inl (JsError (handleApiError_readme (Axios e))) \<and>
      (\<exists>g r. calls_of (update_collector_execute net s a) = [(g, Inr r), (q, Inl e)] \<and>
             req_method g = GET))"
proof (intro conjI allI impI)
  show "length (filter (\<lambda>c. req_method (fst c) = PUT)
          (calls_of (update_collector_tool net s a))) \<le> 1"
    by (simp only: update_collector_tool_def update_collector_flow_calls)
  show "length (filter (\<lambda>c. req_method (fst c) = PUT)
          (calls_of (update_collector_execute net s a))) \<le> 1"
    by (simp only: update_collector_execute_def update_collector_flow_calls)
next
  fix q e
  assume "(q, Inl e) \<in> set (calls_of (update_collector_tool net s a)) \<and> req_method q = PUT"
  then have rejected:
      "(q, Inl e) \<in> set (calls_of (update_collector_flow net s a json_result error_result))"
    and put: "req_method q = PUT"
    by (simp_all add: update_collector_tool_def)
  note shape = update_collector_flow_rejected [OF rejected put]
  from shape show "result_of (update_collector_tool net s a) =
        \<lparr>content = [TextBlock (Some (handleApiError_readme (Axios e)))], isError = Some True\<rparr>"
    by (simp add: update_collector_tool_def error_result_def)
  from shape show "\<exists>g r. calls_of (update_collector_tool net s a) = [(g, Inr r), (q, Inl e)] \<and>
                     req_method g = GET"
    by (simp add: update_collector_tool_def)
next
  fix q e
  assume "(q, Inl e) \<in> set (calls_of (update_collector_execute net s a)) \<and> req_method q = PUT"
  then have rejected:
      "(q, Inl e) \<in> set (calls_of (update_collector_flow net s a resolve_data rethrow))"
    and put: "req_method q = PUT"
    by (simp_all add: update_collector_execute_def)
  note shape = update_collector_flow_rejected [OF rejected put]
  from shape show "result_of (update_collector_execute net s a) =
        Inl (JsError (handleApiError_readme (Axios e)))"
    by (simp add: update_collector_execute_def rethrow_Axios)
  from shape show "\<exists>g r. calls_of (update_collector_execute net s a) = [(g, Inr r), (q, Inl e)] \<and>
                     req_method g = GET"
    by (simp add: update_collector_execute_def)
qed

text \<open>
  C5 as stated fails for \<open>index.ts\<close>: when the PUT is rejected with status 412, the
  handler does not return an error result, it throws.
\<close>

theorem update_collector_execute_rejects:
  "update_collector_execute conflict_remote 0
      [(''collector_id'', JStr ''7''), (''name'', JStr ''B'')] =
     (Inl (JsError (''API Error: 412 - {'' @ [CHR 0x22] @ ''message'' @ [CHR 0x22] @ '':''
                      @ [CHR 0x22] @ ''etag mismatch'' @ [CHR 0x22] @ ''}'')),
      [(client_get ''/v1/collectors/7'', Inr fetched_A),
       (client_put ''/v1/collectors/7''
          (JObj [(''collector'', JObj [(''name'', JStr ''B''), (''description'', JStr ''d''),
                        (''category'', JStr ''c''), (''fields'', JUndefined)])])
          [(''If-Match'', JStr ''v1'')], Inl precondition_failed)],
      2)"
  by (simp add: update_collector_execute_def update_collector_flow_def
        conflict_remote_def client_get_def client_put_def arg_def fetched_A_def collector_A_def
        getprop_def nullish_def prop_of_def update_collectorData_def or_current_def
        defined_or_current_def etag_of_def Let_def precondition_failed_def rethrow_def
        handleApiError_index_def api_error_text_def template_opt_def show_int_def
        show_nat.simps digit_char_def quote_def escape_char_def)

theorem update_collector_single_write_witness:
  "calls_of (update_collector_tool conflict_remote 0
      [(''collector_id'', JStr ''7''), (''name'', JStr ''B'')]) =
     [(client_get ''/v1/collectors/7'', Inr fetched_A),
      (client_put ''/v1/collectors/7''
         (JObj [(''collector'', JObj [(''name'', JStr ''B''), (''description'', JStr ''d''),
                       (''category'', JStr ''c''), (''fields'', JUndefined)])])
         [(''If-Match'', JStr ''v1'')], Inl precondition_failed)] \<and>
   result_of (update_collector_tool conflict_remote 0
      [(''collector_id'', JStr ''7''), (''name'', JStr ''B'')]) =
     \<lparr>content = [TextBlock (Some (handleApiError_readme (Axios precondition_failed)))],
      isError = Some True\<rparr>"
proof -
  let ?a = "[(''collector_id'', JStr ''7''), (''name'', JStr ''B'')]"
  let ?put = "client_put ''/v1/collectors/7''
         (JObj [(''collector'', JObj [(''name'', JStr ''B''), (''description'', JStr ''d''),
                       (''category'', JStr ''c''), (''fields'', JUndefined)])])
         [(''If-Match'', JStr ''v1'')]"
  have calls: "calls_of (update_collector_tool conflict_remote 0 ?a) =
     [(client_get ''/v1/collectors/7'', Inr fetched_A), (?put, Inl precondition_failed)]"
    by (simp add: update_collector_tool_def update_collector_flow_def calls_of_def
        conflict_remote_def client_get_def client_put_def arg_def fetched_A_def collector_A_def
        getprop_def nullish_def prop_of_def update_collectorData_def or_current_def
        defined_or_current_def etag_of_def Let_def)
  have "(?put, Inl precondition_failed) \<in> set (calls_of (update_collector_tool conflict_remote 0 ?a))"
    by (simp only: calls) simp
  moreover have "req_method ?put = PUT"
    by (simp add: client_put_def)
  ultimately have "result_of (update_collector_tool conflict_remote 0 ?a) =
     \<lparr>content = [TextBlock (Some (handleApiError_readme (Axios precondition_failed)))],
      isError = Some True\<rparr>"
    using update_collector_single_write [of conflict_remote 0 ?a] by blast
  with calls show ?thesis by blast
qed

section \<open>Failures of the remote calls\<close>

lemma attempt_failed:
  "attempt net s req on_ok on_err = (r, calls, s') \<Longrightarrow> (q, Inl e) \<in> set calls \<Longrightarrow> r = on_err (Axios e)"
  by (auto simp: attempt_def split: prod.splits sum.splits)

lemma attempt_built_failed:
  "attempt_built net s b on_ok on_err = (r, calls, s') \<Longrightarrow> (q, Inl e) \<in> set calls \<Longrightarrow>
   r = on_err (Axios e)"
  by (cases b) (auto simp: attempt_built_def dest: attempt_failed)

lemma update_collector_flow_failed:
  "update_collector_flow net s a on_ok on_err = (r, calls, s') \<Longrightarrow> (q, Inl e) \<in> set calls \<Longrightarrow>
   r = on_err (Axios e)"
  by (auto simp: update_collector_flow_def Let_def split: prod.splits sum.splits)

lemma list_collectors_tool_failed:
  "list_collectors_tool net s a = (r, calls, s') \<Longrightarrow> (q, Inl e) \<in> set calls \<Longrightarrow> r = error_result (Axios e)"
  unfolding list_collectors_tool_def by (rule attempt_failed)

lemma get_collector_tool_failed:
  "get_collector_tool net s a = (r, calls, s') \<Longrightarrow> (q, Inl e) \<in> set calls \<Longrightarrow> r = error_result (Axios e)"
  unfolding get_collector_tool_def by (rule attempt_failed)

lemma create_hosted_collector_tool_failed:
  "create_hosted_collector_tool net s a = (r, calls, s') \<Longrightarrow> (q, Inl e) \<in> set calls \<Longrightarrow> r = error_result (Axios e)"
  unfolding create_hosted_collector_tool_def by (rule attempt_failed)

lemma update_collector_tool_failed:
  "update_collector_tool net s a = (r, calls, s') \<Longrightarrow> (q, Inl e) \<in> set calls \<Longrightarrow> r = error_result (Axios e)"
  unfolding update_collector_tool_def by (rule update_collector_flow_failed)

lemma delete_collector_tool_failed:
  "delete_collector_tool net s a = (r, calls, s') \<Longrightarrow> (q, Inl e) \<in> set calls \<Longrightarrow> r = error_result (Axios e)"
  unfolding delete_collector_tool_def by (rule attempt_failed)

lemma list_sources_tool_failed:
  "list_sources_tool net s a = (r, calls, s') \<Longrightarrow> (q, Inl e) \<in> set calls \<Longrightarrow> r = error_result (Axios e)"
  unfolding list_sources_tool_def by (rule attempt_failed)

lemma get_source_tool_failed:
  "get_source_tool net s a = (r, calls, s') \<Longrightarrow> (q, Inl e) \<in> set calls \<Longrightarrow> r = error_result (Axios e)"
  unfolding get_source_tool_def by (rule attempt_failed)

lemma create_http_source_tool_failed:
  "create_http_source_tool net s a = (r, calls, s') \<Longrightarrow> (q, Inl e) \<in> set calls \<Longrightarrow> r = error_result (Axios e)"
  unfolding create_http_source_tool_def by (rule attempt_failed)

lemma start_search_job_tool_failed:
  "start_search_job_tool net s a = (r, calls, s') \<Longrightarrow> (q, Inl e) \<in> set calls \<Longrightarrow> r = error_result (Axios e)"
  unfolding start_search_job_tool_def by (rule attempt_failed)

lemma check_search_job_status_tool_failed:
  "check_search_job_status_tool net s a = (r, calls, s') \<Longrightarrow> (q, Inl e) \<in> set calls \<Longrightarrow> r = error_result (Axios e)"
  unfolding check_search_job_status_tool_def by (rule attempt_failed)

lemma get_search_job_results_tool_failed:
  "get_search_job_results_tool net s a = (r, calls, s') \<Longrightarrow> (q, Inl e) \<in> set calls \<Longrightarrow> r = error_result (Axios e)"
  unfolding get_search_job_results_tool_def by (rule attempt_built_failed)

lemma list_monitors_tool_failed:
  "list_monitors_tool net s a = (r, calls, s') \<Longrightarrow> (q, Inl e) \<in> set calls \<Longrightarrow> r = error_result (Axios e)"
  unfolding list_monitors_tool_def by (rule attempt_failed)

lemma get_monitor_tool_failed:
  "get_monitor_tool net s a = (r, calls, s') \<Longrightarrow> (q, Inl e) \<in> set calls \<Longrightarrow> r = error_result (Axios e)"
  unfolding get_monitor_tool_def by (rule attempt_failed)

lemma list_collectors_execute_failed:
  "list_collectors_execute net s a = (r, calls, s') \<Longrightarrow> (q, Inl e) \<in> set calls \<Longrightarrow> r = rethrow (Axios e)"
  unfolding list_collectors_execute_def by (rule attempt_failed)

lemma get_collector_execute_failed:
  "get_collector_execute net s a = (r, calls, s') \<Longrightarrow> (q, Inl e) \<in> set calls \<Longrightarrow> r = rethrow (Axios e)"
  unfolding get_collector_execute_def by (rule attempt_failed)

lemma create_hosted_collector_execute_failed:
  "create_hosted_collector_execute net s a = (r, calls, s') \<Longrightarrow> (q, Inl e) \<in> set calls \<Longrightarrow> r = rethrow (Axios e)"
  unfolding create_hosted_collector_execute_def by (rule attempt_failed)

lemma update_collector_execute_failed:
  "update_collector_execute net s a = (r, calls, s') \<Longrightarrow> (q, Inl e) \<in> set calls \<Longrightarrow> r = rethrow (Axios e)"
  unfolding update_collector_execute_def by (rule update_collector_flow_failed)

lemma delete_collector_execute_failed:
  "delete_collector_execute net s a = (r, calls, s') \<Longrightarrow> (q, Inl e) \<in> set calls \<Longrightarrow> r = rethrow (Axios e)"
  unfolding delete_collector_execute_def by (rule attempt_failed)

lemma list_sources_execute_failed:
  "list_sources_execute net s a = (r, calls, s') \<Longrightarrow> (q, Inl e) \<in> set calls \<Longrightarrow> r = rethrow (Axios e)"
  unfolding list_sources_execute_def by (rule attempt_failed)

lemma get_source_execute_failed:
  "get_source_execute net s a = (r, calls, s') \<Longrightarrow> (q, Inl e) \<in> set calls \<Longrightarrow> r = rethrow (Axios e)"
  unfolding get_source_execute_def by (rule attempt_failed)

lemma create_http_source_execute_failed:
  "create_http_source_execute net s a = (r, calls, s') \<Longrightarrow> (q, Inl e) \<in> set calls \<Longrightarrow> r = rethrow (Axios e)"
  unfolding create_http_source_execute_def by (rule attempt_failed)

lemma start_search_job_execute_failed:
  "start_search_job_execute net s a = (r, calls, s') \<Longrightarrow> (q, Inl e) \<in> set calls \<Longrightarrow> r = rethrow (Axios e)"
  unfolding start_search_job_execute_def by (rule attempt_failed)

lemma check_search_job_status_execute_failed:
  "check_search_job_status_execute net s a = (r, calls, s') \<Longrightarrow> (q, Inl e) \<in> set calls \<Longrightarrow> r = rethrow (Axios e)"
  unfolding check_search_job_status_execute_def by (rule attempt_failed)

lemma get_search_job_results_execute_failed:
  "get_search_job_results_execute net s a = (r, calls, s') \<Longrightarrow> (q, Inl e) \<in> set calls \<Longrightarrow> r = rethrow (Axios e)"
  unfolding get_search_job_results_execute_def by (rule attempt_built_failed)

lemma list_monitors_execute_failed:
  "list_monitors_execute net s a = (r, calls, s') \<Longrightarrow> (q, Inl e) \<in> set calls \<Longrightarrow> r = rethrow (Axios e)"
  unfolding list_monitors_execute_def by (rule attempt_failed)

lemma get_monitor_execute_failed:
  "get_monitor_execute net s a = (r, calls, s') \<Longrightarrow> (q, Inl e) \<in> set calls \<Longrightarrow> r = rethrow (Axios e)"
  unfolding get_monitor_execute_def by (rule attempt_failed)

lemma server_tools_handlers:
  assumes "(n, sch, h) \<in> set server_tools" and "n \<noteq> ''check_connection''"
  shows "h \<in> {list_collectors_tool, get_collector_tool, create_hosted_collector_tool, update_collector_tool, delete_collector_tool, list_sources_tool, get_source_tool, create_http_source_tool, start_search_job_tool, check_search_job_status_tool, get_search_job_results_tool, list_monitors_tool, get_monitor_tool}"
  using assms by (auto simp: server_tools_def)

lemma sumoLogicTools_handlers:
  assumes "t \<in> set sumoLogicTools" and "tool_name t \<noteq> ''check_connection''"
  shows "execute t \<in> {list_collectors_execute, get_collector_execute, create_hosted_collector_execute, update_collector_execute, delete_collector_execute, list_sources_execute, get_source_execute, create_http_source_execute, start_search_job_execute, check_search_job_status_execute, get_search_job_results_execute, list_monitors_execute, get_monitor_execute}"
  using assms by (auto simp: sumoLogicTools_def)

lemma server_tools_failed:
  assumes "(n, sch, h) \<in> set server_tools" and "n \<noteq> ''check_connection''"
    and "h net s a = (r, calls, s')" and "(q, Inl e) \<in> set calls"
  shows "r = error_result (Axios e)"
  using server_tools_handlers [OF assms(1,2)] assms(3,4)
  by (auto dest: list_collectors_tool_failed get_collector_tool_failed create_hosted_collector_tool_failed update_collector_tool_failed delete_collector_tool_failed list_sources_tool_failed get_source_tool_failed create_http_source_tool_failed start_search_job_tool_failed check_search_job_status_tool_failed get_search_job_results_tool_failed list_monitors_tool_failed get_monitor_tool_failed)

lemma sumoLogicTools_failed:
  assumes "t \<in> set sumoLogicTools" and "tool_name t \<noteq> ''check_connection''"
    and "execute t net s a = (r, calls, s')" and "(q, Inl e) \<in> set calls"
  shows "r = rethrow (Axios e)"
  using sumoLogicTools_handlers [OF assms(1,2)] assms(3,4)
  by (auto dest: list_collectors_execute_failed get_collector_execute_failed create_hosted_collector_execute_failed update_collector_execute_failed delete_collector_execute_failed list_sources_execute_failed get_source_execute_failed create_http_source_execute_failed start_search_job_execute_failed check_search_job_status_execute_failed get_search_job_results_execute_failed list_monitors_execute_failed get_monitor_execute_failed)

text \<open>
  C3, as the code has it. Take any handler other than \<open>check_connection\<close>, any remote
  service and any arguments; if one of the calls the handler made failed with the
  AxiosError \<open>e\<close>, then the handler of \<open>README.md\<close> returns the result whose single
  text block is the normalizer's output for \<open>e\<close> and whose error flag is set (a handler
  of \<open>README.md\<close> always returns), and the handler of \<open>index.ts\<close> rejects with an Error
  whose message is the normalizer's output for \<open>e\<close>.
\<close>

theorem handlers_report_failure:
  "(\<forall>n sch h r calls s' q e.
      (n, sch, h) \<in> set server_tools \<and> n \<noteq> ''check_connection'' \<and>
      h net s a = (r, calls, s') \<and> (q, Inl e) \<in> set calls \<longrightarrow>
      r = \<lparr>content = [TextBlock (Some (handleApiError_readme (Axios e)))], isError = Some True\<rparr>) \<and>
   (\<forall>t r calls s' q e.
      t \<in> set sumoLogicTools \<and> tool_name t \<noteq> ''check_connection'' \<and>
      execute t net s a = (r, calls, s') \<and> (q, Inl e) \<in> set calls \<longrightarrow>
      r = Inl (JsError (handleApiError_readme (Axios e))))"
proof (intro conjI allI impI)
  fix n sch h r calls s' q e
  assume "(n, sch, h) \<in> set server_tools \<and> n \<noteq> ''check_connection'' \<and>
      h net s a = (r, calls, s') \<and> (q, Inl e) \<in> set calls"
  then have "r = error_result (Axios e)"
    using server_tools_failed [of n sch h net s a r calls s' q e] by blast
  then show "r = \<lparr>content = [TextBlock (Some (handleApiError_readme (Axios e)))], isError = Some True\<rparr>"
    by (simp add: error_result_def)
next
  fix t r calls s' q e
  assume "t \<in> set sumoLogicTools \<and> tool_name t \<noteq> ''check_connection'' \<and>
      execute t net s a = (r, calls, s') \<and> (q, Inl e) \<in> set calls"
  then have "r = rethrow (Axios e)"
    using sumoLogicTools_failed [of t net s a r calls s' q e] by blast
  then show "r = Inl (JsError (handleApiError_readme (Axios e)))"
    by (simp add: rethrow_Axios)
qed

text \<open>
  C3 as stated fails: when the remote cannot be reached, \<open>check_connection\<close> returns a
  result without the error flag, and \<open>list_collectors\<close> of \<open>index.ts\<close> throws.
\<close>

theorem handlers_not_all_flagged:
  "result_of (check_connection_tool unreachable_remote 0 []) =
     \<lparr>content = [TextBlock (JSON_stringify (JObj [(''status'', JStr ''error''),
                    (''message'', JStr ''Error: Network Error'')]))],
      isError = None\<rparr> \<and>
   result_of (list_collectors_execute unreachable_remote 0 []) = Inl (JsError ''Error: Network Error'')"
  by (simp add: check_connection_tool_def list_collectors_execute_def attempt_def result_of_def
        unreachable_remote_def text_result_def connection_failed_def handleApiError_readme_def
        rethrow_def handleApiError_index_def)

theorem handlers_report_failure_witness:
  "get_collector_tool unreachable_remote 0 [(''collector_id'', JStr ''7'')] =
     (\<lparr>content = [TextBlock (Some ''Error: Network Error'')], isError = Some True\<rparr>,
      [(client_get ''/v1/collectors/7'', Inl (AxiosError ''Network Error'' None))], 1) \<and>
   get_collector_execute unreachable_remote 0 [(''collector_id'', JStr ''7'')] =
     (Inl (JsError ''Error: Network Error''),
      [(client_get ''/v1/collectors/7'', Inl (AxiosError ''Network Error'' None))], 1)"
proof -
  let ?a = "[(''collector_id'', JStr ''7'')]"
  let ?calls = "[(client_get ''/v1/collectors/7'', Inl (AxiosError ''Network Error'' None))]"
  obtain r where t: "get_collector_tool unreachable_remote 0 ?a = (r, ?calls, 1)"
    by (simp add: get_collector_tool_def attempt_def unreachable_remote_def arg_def)
  obtain r' where x: "get_collector_execute unreachable_remote 0 ?a = (r', ?calls, 1)"
    by (simp add: get_collector_execute_def attempt_def unreachable_remote_def arg_def)
  have reg: "(''get_collector'', [(''collector_id'', ZString)], get_collector_tool) \<in> set server_tools"
    by (simp add: server_tools_def)
  have reg': "sumoLogicTools ! 2 \<in> set (sumoLogicTools :: nat McpToolDefinition list)"
    by (simp add: sumoLogicTools_def)
  have ex: "execute (sumoLogicTools ! 2) = get_collector_execute"
    and nm: "tool_name (sumoLogicTools ! 2) \<noteq> ''check_connection''"
    by (simp_all add: sumoLogicTools_def)
  have mem: "(client_get ''/v1/collectors/7'', Inl (AxiosError ''Network Error'' None)) \<in> set ?calls"
    by simp
  note main = handlers_report_failure [of unreachable_remote 0 ?a]
  have "r = \<lparr>content = [TextBlock (Some (handleApiError_readme (Axios (AxiosError ''Network Error'' None))))],
              isError = Some True\<rparr>"
    using main reg t mem by blast
  moreover have "r' = Inl (JsError (handleApiError_readme (Axios (AxiosError ''Network Error'' None))))"
    using main reg' nm x mem unfolding ex [symmetric] by blast
  ultimately show ?thesis
    using t x by (simp add: handleApiError_readme_def)
qed

section \<open>check_connection\<close>

text \<open>
  C10. The result of \<open>check_connection\<close> never carries the error flag: the handler of
  \<open>README.md\<close> leaves \<open>isError\<close> unset whatever the remote answers, and the handler of
  \<open>index.ts\<close> always resolves. When the probe fails with the AxiosError \<open>e\<close>, the
  payload has status \<open>error\<close> and the normalizer's output for \<open>e\<close> as its message.
\<close>

theorem check_connection_never_flagged:
  "isError (result_of (check_connection_tool net s a)) = None \<and>
   (\<exists>payload. result_of (check_connection_execute net s a) = Inr payload) \<and>
   (\<forall>e s'. net s (client_get ''/v1/collectors'') = (Inl e, s') \<longrightarrow>
      result_of (check_connection_tool net s a) =
        \<lparr>content = [TextBlock (JSON_stringify (JObj [(''status'', JStr ''error''),
                       (''message'', JStr (handleApiError_readme (Axios e)))]))],
         isError = None\<rparr> \<and>
      result_of (check_connection_execute net s a) =
        Inr (JObj [(''status'', JStr ''error''),
                   (''message'', JStr (handleApiError_readme (Axios e)))]))"
proof (intro conjI allI impI)
  show "isError (result_of (check_connection_tool net s a)) = None"
    by (simp add: check_connection_tool_def attempt_def result_of_def text_result_def
        split: prod.splits sum.splits)
  show "\<exists>payload. result_of (check_connection_execute net s a) = Inr payload"
    by (simp add: check_connection_execute_def attempt_def result_of_def
        handleApiError_index_Axios_readme split: prod.splits sum.splits)
next
  fix e s'
  assume failed: "net s (client_get ''/v1/collectors'') = (Inl e, s')"
  then show "result_of (check_connection_tool net s a) =
        \<lparr>content = [TextBlock (JSON_stringify (JObj [(''status'', JStr ''error''),
                       (''message'', JStr (handleApiError_readme (Axios e)))]))],
         isError = None\<rparr>"
    by (simp add: check_connection_tool_def attempt_def result_of_def text_result_def
        connection_failed_def)
  from failed show "result_of (check_connection_execute net s a) =
        Inr (JObj [(''status'', JStr ''error''),
                   (''message'', JStr (handleApiError_readme (Axios e)))])"
    by (simp add: check_connection_execute_def attempt_def result_of_def connection_failed_def
        handleApiError_index_Axios_readme)
qed

theorem check_connection_never_flagged_witness:
  "result_of (check_connection_tool unreachable_remote 0 []) =
        \<lparr>content = [TextBlock (JSON_stringify (JObj [(''status'', JStr ''error''),
                       (''message'', JStr ''Error: Network Error'')]))],
         isError = None\<rparr> \<and>
   result_of (check_connection_execute unreachable_remote 0 []) =
        Inr (JObj [(''status'', JStr ''error''), (''message'', JStr ''Error: Network Error'')])"
proof -
  have "unreachable_remote 0 (client_get ''/v1/collectors'') = (Inl (AxiosError ''Network Error'' None), 1)"
    by (simp add: unreachable_remote_def)
  with check_connection_never_flagged [of unreachable_remote 0 "[]"] show ?thesis
    by (simp add: handleApiError_readme_def)
qed

section \<open>get_search_job_results and create_hosted_collector\<close>

text \<open>
  C6. \<open>get_search_job_results\<close> invoked with \<open>limit = 50\<close> and \<open>offset = 0\<close> makes one
  GET to \<open>/v1/search/jobs/{job_id}/messages\<close> whose query parameters are the strings
  \<open>limit = "50"\<close> and \<open>offset = "0"\<close> (the zero offset is sent); invoked with neither,
  the GET has no query parameter. Both files make the same request.
\<close>

theorem get_search_job_results_params:
  "(arg a ''limit'' = JNum 50 \<and> arg a ''offset'' = JNum 0 \<longrightarrow>
      requests_of (get_search_job_results_tool net s a) =
        [\<lparr>req_method = GET, req_url = ''/v1/search/jobs/'' @ toString (arg a ''job_id'') @ ''/messages'',
          req_data = None, req_params = [(''limit'', ''50''), (''offset'', ''0'')], req_headers = []\<rparr>] \<and>
      requests_of (get_search_job_results_execute net s a) =
        requests_of (get_search_job_results_tool net s a)) \<and>
   (arg a ''limit'' = JUndefined \<and> arg a ''offset'' = JUndefined \<longrightarrow>
      requests_of (get_search_job_results_tool net s a) =
        [\<lparr>req_method = GET, req_url = ''/v1/search/jobs/'' @ toString (arg a ''job_id'') @ ''/messages'',
          req_data = None, req_params = [], req_headers = []\<rparr>] \<and>
      requests_of (get_search_job_results_execute net s a) =
        requests_of (get_search_job_results_tool net s a))"
  by (simp add: get_search_job_results_tool_def get_search_job_results_execute_def
        attempt_built_def attempt_def search_results_request_def search_params_def
        optional_param_def toString_method_def nullish_def requests_of_def calls_of_def
        client_get_params_def show_int_def show_nat.simps digit_char_def
        split: prod.splits sum.splits)

theorem get_search_job_results_params_witness:
  "requests_of (get_search_job_results_tool echo_remote 0
      [(''job_id'', JStr ''J1''), (''limit'', JNum 50), (''offset'', JNum 0)]) =
     [\<lparr>req_method = GET, req_url = ''/v1/search/jobs/J1/messages'',
       req_data = None, req_params = [(''limit'', ''50''), (''offset'', ''0'')], req_headers = []\<rparr>] \<and>
   requests_of (get_search_job_results_tool echo_remote 0 [(''job_id'', JStr ''J1'')]) =
     [\<lparr>req_method = GET, req_url = ''/v1/search/jobs/J1/messages'',
       req_data = None, req_params = [], req_headers = []\<rparr>]"
  using get_search_job_results_params
      [of "[(''job_id'', JStr ''J1''), (''limit'', JNum 50), (''offset'', JNum 0)]" echo_remote 0]
    get_search_job_results_params [of "[(''job_id'', JStr ''J1'')]" echo_remote 0]
  by (simp add: arg_def)

text \<open>
  C7. \<open>create_hosted_collector\<close> invoked with nothing but \<open>name = "web-logs"\<close> makes
  one POST to \<open>/v1/collectors\<close> whose body has \<open>collector.collectorType = "Hosted"\<close>,
  \<open>collector.name = "web-logs"\<close>, and \<open>description\<close>, \<open>category\<close> and \<open>fields\<close>
  \<open>undefined\<close>, so that they are absent from the serialized body. Both files make the
  same request.
\<close>

theorem create_hosted_collector_name_only:
  assumes "arg a ''name'' = JStr ''web-logs''" and "arg a ''description'' = JUndefined"
    and "arg a ''category'' = JUndefined" and "arg a ''fields'' = JUndefined"
  shows "requests_of (create_hosted_collector_tool net s a) =
      [\<lparr>req_method = POST, req_url = ''/v1/collectors'',
        req_data = Some (JObj [(''collector'', JObj [(''collectorType'', JStr ''Hosted''),
           (''name'', JStr ''web-logs''), (''description'', JUndefined), (''category'', JUndefined),
           (''fields'', JUndefined)])]),
        req_params = [], req_headers = []\<rparr>] \<and>
     requests_of (create_hosted_collector_execute net s a) =
       requests_of (create_hosted_collector_tool net s a) \<and>
     JSON_stringify (JObj [(''collector'', JObj [(''collectorType'', JStr ''Hosted''),
           (''name'', JStr ''web-logs''), (''description'', JUndefined), (''category'', JUndefined),
           (''fields'', JUndefined)])]) =
     JSON_stringify (JObj [(''collector'', JObj [(''collectorType'', JStr ''Hosted''),
           (''name'', JStr ''web-logs'')])])"
  using assms
  by (simp add: create_hosted_collector_tool_def create_hosted_collector_execute_def attempt_def
        requests_of_def calls_of_def client_post_def create_collectorData_def
        split: prod.splits sum.splits)

theorem create_hosted_collector_name_only_witness:
  "requests_of (create_hosted_collector_tool echo_remote 0 [(''name'', JStr ''web-logs'')]) =
      [\<lparr>req_method = POST, req_url = ''/v1/collectors'',
        req_data = Some (JObj [(''collector'', JObj [(''collectorType'', JStr ''Hosted''),
           (''name'', JStr ''web-logs''), (''description'', JUndefined), (''category'', JUndefined),
           (''fields'', JUndefined)])]),
        req_params = [], req_headers = []\<rparr>]"
  using create_hosted_collector_name_only [of "[(''name'', JStr ''web-logs'')]" echo_remote 0]
  by (simp add: arg_def)

section \<open>Startup and validation\<close>

lemma env_or_absent: "v = None \<or> v = Some [] \<Longrightarrow> env_or v [] = []"
  by (auto simp: env_or_def)

text \<open>
  C8. If either credential variable is unset (or empty), startup logs the credentials
  message and exits with code 1, and nothing else happens: no client is created, no
  tool is registered, the server is never connected, so no request can be made. If
  both credentials are present and the endpoint variable is unset, the client is
  created with the base URL \<open>https://api.sumologic.com/api\<close>. Both files behave so.
\<close>

theorem startup_credentials:
  "(env ''SUMOLOGIC_ACCESS_ID'' = None \<or> env ''SUMOLOGIC_ACCESS_ID'' = Some [] \<or>
    env ''SUMOLOGIC_ACCESS_KEY'' = None \<or> env ''SUMOLOGIC_ACCESS_KEY'' = Some [] \<longrightarrow>
      startup_index env connect_ok = [ConsoleError credentials_message, ProcessExit 1] \<and>
      startup_readme env connect_ok = [ConsoleError credentials_message, ProcessExit 1]) \<and>
   (env ''SUMOLOGIC_ACCESS_ID'' = Some i \<and> i \<noteq> [] \<and> env ''SUMOLOGIC_ACCESS_KEY'' = Some k \<and> k \<noteq> [] \<and>
    env ''SUMOLOGIC_API_ENDPOINT'' = None \<longrightarrow>
      hd (startup_index env connect_ok) =
        AxiosCreate \<lparr>withCredentials = None, baseURL = ''https://api.sumologic.com/api'',
          username = i, password = k, default_headers = json_headers\<rparr> \<and>
      hd (startup_readme env connect_ok) =
        AxiosCreate \<lparr>withCredentials = Some True, baseURL = ''https://api.sumologic.com/api'',
          username = i, password = k, default_headers = json_headers\<rparr>)"
proof (intro conjI impI)
  assume absent: "env ''SUMOLOGIC_ACCESS_ID'' = None \<or> env ''SUMOLOGIC_ACCESS_ID'' = Some [] \<or>
    env ''SUMOLOGIC_ACCESS_KEY'' = None \<or> env ''SUMOLOGIC_ACCESS_KEY'' = Some []"
  then have "env_or (env ''SUMOLOGIC_ACCESS_ID'') [] = [] \<or> env_or (env ''SUMOLOGIC_ACCESS_KEY'') [] = []"
    using env_or_absent by blast
  then show "startup_index env connect_ok = [ConsoleError credentials_message, ProcessExit 1]"
    and "startup_readme env connect_ok = [ConsoleError credentials_message, ProcessExit 1]"
    by (auto simp: startup_index_def startup_readme_def Let_def)
next
  assume present: "env ''SUMOLOGIC_ACCESS_ID'' = Some i \<and> i \<noteq> [] \<and>
    env ''SUMOLOGIC_ACCESS_KEY'' = Some k \<and> k \<noteq> [] \<and> env ''SUMOLOGIC_API_ENDPOINT'' = None"
  then show "hd (startup_index env connect_ok) =
        AxiosCreate \<lparr>withCredentials = None, baseURL = ''https://api.sumologic.com/api'',
          username = i, password = k, default_headers = json_headers\<rparr>"
    by (simp add: startup_index_def env_or_def Let_def)
  from present show "hd (startup_readme env connect_ok) =
        AxiosCreate \<lparr>withCredentials = Some True, baseURL = ''https://api.sumologic.com/api'',
          username = i, password = k, default_headers = json_headers\<rparr>"
    by (simp add: startup_readme_def env_or_def Let_def)
qed

theorem startup_credentials_witness:
  "startup_index [''SUMOLOGIC_ACCESS_ID'' \<mapsto> ''id''] True = [ConsoleError credentials_message, ProcessExit 1] \<and>
   startup_readme [''SUMOLOGIC_ACCESS_ID'' \<mapsto> ''id''] True = [ConsoleError credentials_message, ProcessExit 1] \<and>
   hd (startup_index [''SUMOLOGIC_ACCESS_ID'' \<mapsto> ''id'', ''SUMOLOGIC_ACCESS_KEY'' \<mapsto> ''key''] True) =
     AxiosCreate \<lparr>withCredentials = None, baseURL = ''https://api.sumologic.com/api'',
          username = ''id'', password = ''key'', default_headers = json_headers\<rparr> \<and>
   hd (startup_readme [''SUMOLOGIC_ACCESS_ID'' \<mapsto> ''id'', ''SUMOLOGIC_ACCESS_KEY'' \<mapsto> ''key''] True) =
     AxiosCreate \<lparr>withCredentials = Some True, baseURL = ''https://api.sumologic.com/api'',
          username = ''id'', password = ''key'', default_headers = json_headers\<rparr>"
  using startup_credentials [where env = "[''SUMOLOGIC_ACCESS_ID'' \<mapsto> ''id'']" and connect_ok = True]
    startup_credentials [where env = "[''SUMOLOGIC_ACCESS_ID'' \<mapsto> ''id'', ''SUMOLOGIC_ACCESS_KEY'' \<mapsto> ''key'']"
      and i = "''id''" and k = "''key''" and connect_ok = True]
  by simp

lemma find_by_name:
  "distinct (map f xs) \<Longrightarrow> x \<in> set xs \<Longrightarrow> find (\<lambda>y. f y = f x) xs = Some x"
  by (induction xs) (auto simp: image_iff)

lemma sumoLogicTools_distinct: "distinct (map tool_name sumoLogicTools)"
  by (simp add: sumoLogicTools_def)

lemma server_tools_distinct: "distinct (map fst server_tools)"
  by (simp add: server_tools_def)

lemma required_presentD:
  "required_present ps a \<Longrightarrow> p \<in> set ps \<Longrightarrow> required p \<Longrightarrow> arg a (param_name p) \<noteq> JUndefined"
  by (auto simp: required_present_def list_all_iff)

lemma schema_acceptsD:
  "schema_accepts schema a \<Longrightarrow> (k, z) \<in> set schema \<Longrightarrow> zod_accepts z (arg a k)"
  by (auto simp: schema_accepts_def list_all_iff)

lemma required_rejects_undefined: "\<not> optional z \<Longrightarrow> \<not> zod_accepts z JUndefined"
  by (cases z) simp_all

text \<open>
  C9. With the validation of the protocol runtime modelled as the specification
  describes it: an invocation of any registered tool that leaves a required parameter
  out is rejected without the handler being run, so it makes no call and leaves the
  remote state as it was. In particular \<open>get_collector\<close> without \<open>collector_id\<close>.
\<close>

theorem missing_required_rejected:
  fixes net :: "'s client"
  shows
  "(\<forall>t p. t \<in> set (sumoLogicTools :: 's McpToolDefinition list) \<and> p \<in> set (parameters t) \<and> required p \<and>
          arg a (param_name p) = JUndefined \<longrightarrow>
      invoke_index net s (tool_name t) a = (InvalidParams, [], s)) \<and>
   (\<forall>n schema handler k z. (n, schema, handler) \<in> set (server_tools :: 's registered_tool list) \<and>
          (k, z) \<in> set schema \<and> \<not> optional z \<and> arg a k = JUndefined \<longrightarrow>
      invoke_readme net s n a = (InvalidParams, [], s))"
proof (intro conjI allI impI)
  fix t p
  assume h: "t \<in> set (sumoLogicTools :: 's McpToolDefinition list) \<and> p \<in> set (parameters t) \<and> required p \<and>
          arg a (param_name p) = JUndefined"
  then have found: "find (\<lambda>tool. tool_name tool = tool_name t) sumoLogicTools = Some t"
    using find_by_name [OF sumoLogicTools_distinct] by blast
  from h have "\<not> required_present (parameters t) a"
    using required_presentD by blast
  with found show "invoke_index net s (tool_name t) a = (InvalidParams, [], s)"
    by (simp add: invoke_index_def)
next
  fix n schema handler k z
  assume h: "(n, schema, handler) \<in> set (server_tools :: 's registered_tool list) \<and>
          (k, z) \<in> set schema \<and> \<not> optional z \<and> arg a k = JUndefined"
  then have found: "map_of server_tools n = Some (schema, handler)"
    using map_of_is_SomeI [OF server_tools_distinct] by blast
  from h have "\<not> schema_accepts schema a"
    using schema_acceptsD [of schema a k z] required_rejects_undefined [of z] by auto
  with found show "invoke_readme net s n a = (InvalidParams, [], s)"
    by (simp add: invoke_readme_def)
qed

theorem missing_required_rejected_witness:
  "invoke_index echo_remote 0 ''get_collector'' [] = (InvalidParams, [], 0) \<and>
   invoke_readme echo_remote 0 ''get_collector'' [] = (InvalidParams, [], 0)"
proof -
  let ?t = "sumoLogicTools ! 2 :: nat McpToolDefinition"
  let ?p = "\<lparr>param_name = ''collector_id'', param_type = ''string'', required = True\<rparr>"
  have reg: "(''get_collector'', [(''collector_id'', ZString)], get_collector_tool)
      \<in> set (server_tools :: nat registered_tool list)"
    by (simp add: server_tools_def)
  have reg': "?t \<in> set sumoLogicTools"
    by (simp add: sumoLogicTools_def)
  have nm: "tool_name ?t = ''get_collector''" and ps: "parameters ?t = [?p]"
    by (simp_all add: sumoLogicTools_def)
  have missing: "arg [] ''collector_id'' = JUndefined"
    by (simp add: arg_def)
  note main = missing_required_rejected [of "[]" echo_remote 0]
  have "invoke_index echo_remote 0 (tool_name ?t) [] = (InvalidParams, [], 0)"
    using main [THEN conjunct1, rule_format, of ?t ?p] reg' missing
    by (simp add: ps)
  moreover have "invoke_readme echo_remote 0 ''get_collector'' [] = (InvalidParams, [], 0)"
    using main [THEN conjunct2, rule_format, of "''get_collector''" "[(''collector_id'', ZString)]"
        get_collector_tool "''collector_id''" ZString] reg missing
    by simp
  ultimately show ?thesis by (simp add: nm)
qed

end
